theory Spec2Isabelle
  imports Main "HOL-Library.Sublist"
begin

section \<open>Data of \<^verbatim>\<open>main.go\<close>\<close>

text \<open>
  A Go \<^verbatim>\<open>string\<close> is a byte sequence, here a \<^typ>\<open>string\<close>. A Go \<^verbatim>\<open>error\<close> is
  carried by the text that \<^verbatim>\<open>%v\<close> prints for it; \<^verbatim>\<open>nil\<close> is \<open>None\<close> of
  \<^typ>\<open>'a option\<close>.
\<close>

datatype error = Error string

fun errorText :: "error \<Rightarrow> string" where
  "errorText (Error text) = text"

record Config =
  Model :: string
  AIName :: string
  SystemPrompt :: string
  Style :: string

abbreviation cmdQuit :: string where "cmdQuit \<equiv> '':q''"
abbreviation cmdMulti :: string where "cmdMulti \<equiv> '':multi''"
abbreviation cmdEnd :: string where "cmdEnd \<equiv> '':end''"
abbreviation cmdRemove :: string where "cmdRemove \<equiv> '':remove''"
abbreviation cmdFile :: string where "cmdFile \<equiv> '':file ''"

subsection \<open>The types of the completion library that the program uses\<close>

record ChatCompletionMessage =
  Role :: string
  Content :: string

abbreviation ChatMessageRoleSystem :: string where "ChatMessageRoleSystem \<equiv> ''system''"
abbreviation ChatMessageRoleUser :: string where "ChatMessageRoleUser \<equiv> ''user''"
abbreviation ChatMessageRoleAssistant :: string where "ChatMessageRoleAssistant \<equiv> ''assistant''"

record ChatCompletionRequest =
  RequestModel :: string
  Messages :: "ChatCompletionMessage list"

record ChatCompletionChoice =
  Message :: ChatCompletionMessage

record ChatCompletionResponse =
  Choices :: "ChatCompletionChoice list"

text \<open>
  The client is carried by the requests it has sent so far, oldest first: what the remote
  end answers belongs to the environment below.
\<close>

type_synonym Client = "ChatCompletionRequest list"

subsection \<open>The functions of package \<^verbatim>\<open>strings\<close> that the program calls\<close>

definition HasPrefix :: "string \<Rightarrow> string \<Rightarrow> bool" where
  "HasPrefix s p = (take (length p) s = p)"

definition TrimPrefix :: "string \<Rightarrow> string \<Rightarrow> string" where
  "TrimPrefix s p = (if HasPrefix s p then drop (length p) s else s)"

fun Join :: "string list \<Rightarrow> string \<Rightarrow> string" where
  "Join [] sep = []"
| "Join [x] sep = x"
| "Join (x # y # ys) sep = x @ sep @ Join (y # ys) sep"

text \<open>
  \<^verbatim>\<open>strings.ToLower\<close> lowers a string rune by rune. The program only compares its
  result with the commands, which are ASCII, so what is modelled is the lowering of every
  rune whose lower case is an ASCII character: the bytes \<^verbatim>\<open>'A'\<close> to \<^verbatim>\<open>'Z'\<close> move to
  \<^verbatim>\<open>'a'\<close> to \<^verbatim>\<open>'z'\<close>, the capital I with a dot above (U+0130, the bytes C4 B0)
  becomes \<^verbatim>\<open>'i'\<close>, and the Kelvin sign (U+212A, the bytes E2 84 AA) becomes \<^verbatim>\<open>'k'\<close>.
  Any other byte from 128 on is kept as it is, where the library puts the lower case of
  the rune, or the replacement character for a byte that is no UTF-8: in the library and
  here alike, the result then holds a byte from 128 on and equals no ASCII text. The
  bytes C4 and E2 never continue a rune, so the library decodes a rune wherever they
  stand with these bytes after them.
\<close>

definition lowerByte :: "char \<Rightarrow> char" where
  "lowerByte c =
     (if 65 \<le> (of_char c :: nat) \<and> (of_char c :: nat) \<le> 90
      then char_of (of_char c + 32 :: nat) else c)"

fun ToLower :: "string \<Rightarrow> string" where
  "ToLower [] = []"
| "ToLower (c # s) =
     (if c = CHR 0xC4 \<and> take 1 s = [CHR 0xB0] then CHR ''i'' # ToLower (drop 1 s)
      else if c = CHR 0xE2 \<and> take 2 s = [CHR 0x84, CHR 0xAA] then CHR ''k'' # ToLower (drop 2 s)
      else lowerByte c # ToLower s)"

subsection \<open>The environment of the process\<close>

text \<open>
  Everything the program asks of the outside: the configuration file and its decoding,
  the parsed flags (\<open>Inl\<close> the status and the message with which \<^verbatim>\<open>flag.Parse\<close> itself
  leaves the process),
  the process environment, the working and home directories, the file system, the remote
  completion end, the terminal styling of lipgloss (colour, bold, text) and the Markdown
  renderer of glamour (from a style path: a failure, or the rendering function).
\<close>

record World =
  os_Open :: "string \<Rightarrow> error + string"
  json_Decode :: "string \<Rightarrow> Config \<times> error option"
  flag_Parse :: "nat \<times> string + string \<times> bool"
  flag_Usage :: string
  os_Getenv :: "string \<Rightarrow> string"
  os_Getwd :: "error + string"
  user_Current :: "error + string"
  os_ReadFile :: "string \<Rightarrow> error + string"
  remote :: "ChatCompletionRequest \<Rightarrow> error + ChatCompletionResponse"
  lipgloss_Render :: "string \<Rightarrow> bool \<Rightarrow> string \<Rightarrow> string"
  glamour_NewTermRenderer :: "string \<Rightarrow> error + (string \<Rightarrow> error + string)"

subsection \<open>The line scanner on standard input\<close>

text \<open>
  \<open>pending\<close> holds what the calls of \<^verbatim>\<open>Scan\<close> to come will give, each with what
  \<^verbatim>\<open>Err\<close> reports after it: \<open>Some\<close> line for a call that delivers the line, \<open>None\<close> for
  a call that fails while the scanner still holds text (after a line too long, the call
  after the failed one delivers what is buffered). Once \<open>pending\<close> is used up every call
  fails and \<^verbatim>\<open>Err\<close> reports \<open>atEnd\<close> (\<open>None\<close> at the plain end of input). A failed
  \<^verbatim>\<open>Scan\<close> leaves the empty token.
\<close>

record Scanner =
  pending :: "(string option \<times> error option) list"
  atEnd :: "error option"
  Err :: "error option"

definition Scan :: "Scanner \<Rightarrow> bool \<times> string \<times> Scanner" where
  "Scan sc =
     (case pending sc of
        [] \<Rightarrow> (False, [], sc\<lparr>Err := atEnd sc\<rparr>)
      | (None, e) # rest \<Rightarrow> (False, [], sc\<lparr>pending := rest, Err := e\<rparr>)
      | (Some text, e) # rest \<Rightarrow> (True, text, sc\<lparr>pending := rest, Err := e\<rparr>))"

section \<open>The helpers\<close>

definition loadConfig :: "World \<Rightarrow> string \<Rightarrow> Config \<times> error option" where
  "loadConfig w path =
     (case os_Open w path of
        Inl err \<Rightarrow> (\<lparr>Model = [], AIName = [], SystemPrompt = [], Style = []\<rparr>, Some err)
      | Inr file \<Rightarrow> json_Decode w file)"

definition formatInputPrefix :: "World \<Rightarrow> string \<Rightarrow> bool \<Rightarrow> string \<Rightarrow> string" where
  "formatInputPrefix w dir isMulti aiName =
     (let formattedDir = lipgloss_Render w ''86'' False (''('' @ dir @ '')'');
          formattedYou = lipgloss_Render w ''183'' True ''You''
      in if isMulti
         then formattedDir @ '' '' @ lipgloss_Render w ''204'' False ''[Multiline]'' @ '' ''
                @ formattedYou @ '': ''
         else formattedDir @ '' '' @ formattedYou @ '': '')"

definition getCurrentDirectory :: "World \<Rightarrow> string" where
  "getCurrentDirectory w =
     (case os_Getwd w of
        Inl err \<Rightarrow> ''unknown''
      | Inr currentDir \<Rightarrow>
          (case user_Current w of
             Inr homeDir \<Rightarrow>
               if HasPrefix currentDir homeDir then ''~'' @ TrimPrefix currentDir homeDir
               else currentDir
           | Inl err \<Rightarrow> currentDir))"

definition readFile :: "World \<Rightarrow> string \<Rightarrow> error + string" where
  "readFile w fileName =
     (case os_ReadFile w fileName of Inl err \<Rightarrow> Inl err | Inr content \<Rightarrow> Inr content)"

text \<open>
  \<^verbatim>\<open>callOpenAI\<close> returns the reply text, returns the error of the call, or panics at
  \<^verbatim>\<open>resp.Choices[0]\<close> (index out of range).
\<close>

datatype reply = Reply string | Failure error | IndexPanic

definition CreateChatCompletion ::
  "World \<Rightarrow> Client \<Rightarrow> ChatCompletionRequest \<Rightarrow> (error + ChatCompletionResponse) \<times> Client" where
  "CreateChatCompletion w client request = (remote w request, client @ [request])"

definition callOpenAI ::
  "World \<Rightarrow> Client \<Rightarrow> Config \<Rightarrow> ChatCompletionMessage list \<Rightarrow> reply \<times> Client" where
  "callOpenAI w client config msgs =
     (case CreateChatCompletion w client \<lparr>RequestModel = Model config, Messages = msgs\<rparr> of
        (Inl err, client') \<Rightarrow> (Failure err, client')
      | (Inr resp, client') \<Rightarrow>
          (case Choices resp of
             [] \<Rightarrow> (IndexPanic, client')
           | choice # others \<Rightarrow> (Reply (Content (Message choice)), client')))"

text \<open>\<^verbatim>\<open>printFormattedResponse\<close> takes standard output as it is and returns it as it becomes.\<close>

definition printFormattedResponse ::
  "World \<Rightarrow> string \<Rightarrow> string \<Rightarrow> string \<Rightarrow> string \<Rightarrow> string \<Rightarrow> error option \<times> string" where
  "printFormattedResponse w response style aiName model out =
     (case glamour_NewTermRenderer w (''./styles/'' @ style @ ''.json'') of
        Inl err \<Rightarrow> (Some err, out)
      | Inr r \<Rightarrow>
          (let formattedAIName = lipgloss_Render w ''39'' True aiName;
               formattedModel = lipgloss_Render w ''178'' False (''('' @ model @ '')'');
               out1 = out @ ''\<newline>'' @ formattedAIName @ '' '' @ formattedModel @ '': ''
           in case r response of
                Inl err \<Rightarrow> (Some err, out1)
              | Inr rendered \<Rightarrow> (None, out1 @ rendered)))"

section \<open>The interactive session\<close>

record Session =
  messages :: "ChatCompletionMessage list"
  contextFile :: string
  isMultiline :: bool
  lines :: "string list"
  scanner :: Scanner
  client :: Client
  stdout :: string

definition say :: "string \<Rightarrow> Session \<Rightarrow> Session" where
  "say text s = s\<lparr>stdout := stdout s @ text\<rparr>"

text \<open>How one pass of the outer \<^verbatim>\<open>for\<close> ends: at its end or a \<^verbatim>\<open>continue\<close>, at the
  \<^verbatim>\<open>return\<close>, or in the panic of \<^verbatim>\<open>callOpenAI\<close>.\<close>

datatype Outcome =
  is_Continue: Continue (state_of: Session)
| is_Returned: Returned (state_of: Session)
| is_Crashed: Crashed (state_of: Session)

subsection \<open>Lines 155 to 175 and 216 to 236: one turn with the remote end\<close>

text \<open>
  Both modes append the user message, call, and on success append and print the reply;
  the two copies differ in the text before the error of a failed call.
\<close>

definition sendUserTurn :: "World \<Rightarrow> Config \<Rightarrow> string \<Rightarrow> string \<Rightarrow> Session \<Rightarrow> Outcome" where
  "sendUserTurn w config errorPrefix userMessage s =
     (let s1 = s\<lparr>messages := messages s @ [\<lparr>Role = ChatMessageRoleUser, Content = userMessage\<rparr>]\<rparr>
      in case callOpenAI w (client s1) config (messages s1) of
           (IndexPanic, c) \<Rightarrow> Crashed (s1\<lparr>client := c\<rparr>)
         | (Failure err, c) \<Rightarrow>
             Continue (say (errorPrefix @ errorText err @ ''\<newline>'') (s1\<lparr>client := c\<rparr>))
         | (Reply response, c) \<Rightarrow>
             (let s2 = s1\<lparr>client := c,
                         messages := messages s1
                           @ [\<lparr>Role = ChatMessageRoleAssistant, Content = response\<rparr>]\<rparr>
              in case printFormattedResponse w response (Style config) (AIName config)
                        (Model config) (stdout s2) of
                   (Some err, out) \<Rightarrow>
                     Continue (say ''\<newline>''
                       (say (''Error formatting response: '' @ errorText err @ ''\<newline>'')
                         (s2\<lparr>stdout := out\<rparr>)))
                 | (None, out) \<Rightarrow> Continue (say ''\<newline>'' (s2\<lparr>stdout := out\<rparr>))))"

subsection \<open>Lines 117 to 145: one line read in multi-line mode\<close>

datatype flow = Next | Break

definition multilineLine :: "string \<Rightarrow> Session \<Rightarrow> flow \<times> Session" where
  "multilineLine line s =
     (let appended = (Next, s\<lparr>lines := lines s @ [line]\<rparr>)
      in if HasPrefix line '':'' then
           (let command = ToLower line
            in if command = cmdMulti then
                 (Break, (say ''Exiting multiline mode.\<newline>\<newline>'' s)
                           \<lparr>isMultiline := False, lines := []\<rparr>)
               else if command = cmdRemove then
                 (if length (lines s) > 0
                  then (Next, (say ''Last line removed.\<newline>\<newline>'' s)
                                \<lparr>lines := butlast (lines s)\<rparr>)
                  else (Next, say ''No lines to remove.\<newline>\<newline>'' s))
               else if command = cmdEnd then (Break, s)
               else appended)
         else appended)"

subsection \<open>Lines 116 to 146: the inner loop\<close>

function multilineLoop :: "Session \<Rightarrow> Session" where
  "multilineLoop s =
     (case Scan (scanner s) of
        (False, line, sc) \<Rightarrow> s\<lparr>scanner := sc\<rparr>
      | (True, line, sc) \<Rightarrow>
          (case multilineLine line (s\<lparr>scanner := sc\<rparr>) of
             (Break, s') \<Rightarrow> s'
           | (Next, s') \<Rightarrow> multilineLoop s'))"
  by pat_completeness auto

termination multilineLoop
  apply (relation "measure (\<lambda>s. length (pending (scanner s)))")
   apply simp
  apply (auto simp: Scan_def multilineLine_def say_def Let_def
      split: list.splits option.splits if_splits)
  done

declare multilineLoop.simps [simp del]

subsection \<open>Lines 110 to 237: one pass of the outer loop\<close>

definition multilineBranch :: "World \<Rightarrow> Config \<Rightarrow> Session \<Rightarrow> Outcome" where
  "multilineBranch w config s =
     (let s1 = multilineLoop (say ''\<newline>'' s)
      in case Err (scanner s1) of
           Some err \<Rightarrow> Continue (say (''Error reading input: '' @ errorText err @ ''\<newline>'') s1)
         | None \<Rightarrow>
             if length (lines s1) > 0
             then sendUserTurn w config ''Error communicating with AI: ''
                    (Join (lines s1) ''\<newline>'') s1
             else Continue s1)"

definition singleLineBranch :: "World \<Rightarrow> Config \<Rightarrow> Session \<Rightarrow> Outcome" where
  "singleLineBranch w config s =
     (case Scan (scanner s) of (ok, userInput, sc) \<Rightarrow>
        (let s1 = s\<lparr>scanner := sc\<rparr>
         in if ToLower userInput = cmdQuit then
              Returned (say ''Exiting interactive mode.\<newline>\<newline>'' s1)
            else if ToLower userInput = cmdMulti then
              Continue ((say (''Multiline mode. Type '' @ cmdEnd @ '' to finish input, ''
                              @ cmdRemove @ '' to delete the most recent line.\<newline>\<newline>'') s1)
                          \<lparr>isMultiline := True, lines := []\<rparr>)
            else if HasPrefix userInput cmdFile then
              (let fileName = TrimPrefix userInput cmdFile
               in case readFile w fileName of
                    Inl err \<Rightarrow>
                      Continue (say (''Error reading file: '' @ errorText err @ ''\<newline>'') s1)
                  | Inr content \<Rightarrow>
                      Continue (say (''Added '' @ fileName @ '' to the context.\<newline>\<newline>'')
                        (s1\<lparr>contextFile := fileName,
                            messages := messages s1
                              @ [\<lparr>Role = ChatMessageRoleUser,
                                  Content = ''Content of '' @ fileName @ '':\<newline>'' @ content\<rparr>]\<rparr>)))
            else
              (let userMessage =
                     (if contextFile s1 \<noteq> []
                      then ''(Context: '' @ contextFile s1 @ '') '' @ userInput
                      else userInput)
               in sendUserTurn w config ''Error: '' userMessage s1)))"

definition iteration :: "World \<Rightarrow> Config \<Rightarrow> Session \<Rightarrow> Outcome" where
  "iteration w config s =
     (let currentDir = getCurrentDirectory w;
          inputPrefix = formatInputPrefix w currentDir (isMultiline s) (AIName config);
          s1 = say inputPrefix s
      in if isMultiline s1 then multilineBranch w config s1
         else singleLineBranch w config s1)"

subsection \<open>Lines 97 to 107: the session at its start\<close>

definition start :: "Config \<Rightarrow> Scanner \<Rightarrow> Client \<Rightarrow> string \<Rightarrow> Session" where
  "start config stdin cl out =
     \<lparr>messages = [\<lparr>Role = ChatMessageRoleSystem, Content = SystemPrompt config\<rparr>],
      contextFile = [],
      isMultiline = False,
      lines = [],
      scanner = stdin,
      client = cl,
      stdout = out @ ''Entering interactive mode. Type '' @ cmdQuit @ '' to exit or '' @ cmdMulti
                 @ '' to enter multiline mode.\<newline>\<newline>''\<rparr>"

subsection \<open>The outer loop, and \<^verbatim>\<open>runInteractiveMode\<close>\<close>

text \<open>
  The loop has no bound of its own. Each pass takes the environment as it is during that
  pass from a list; \<open>None\<close> says that the loop is still running when the list is used up.
\<close>

fun loop :: "World list \<Rightarrow> Config \<Rightarrow> Session \<Rightarrow> Outcome option" where
  "loop [] config s = None"
| "loop (w # ws) config s =
     (case iteration w config s of
        Continue s' \<Rightarrow> loop ws config s'
      | Returned s' \<Rightarrow> Some (Returned s')
      | Crashed s' \<Rightarrow> Some (Crashed s'))"

definition runInteractiveMode ::
  "World list \<Rightarrow> Client \<Rightarrow> Config \<Rightarrow> Scanner \<Rightarrow> string \<Rightarrow> Outcome option" where
  "runInteractiveMode ws cl config stdin out = loop ws config (start config stdin cl out)"

text \<open>The states of a session: the one at the start, and the one after each pass that goes on.\<close>

inductive reachable :: "Config \<Rightarrow> Session \<Rightarrow> bool" for config :: Config where
  at_start: "reachable config (start config stdin cl out)"
| after_pass: "reachable config s \<Longrightarrow> iteration w config s = Continue s' \<Longrightarrow> reachable config s'"

section \<open>The process\<close>

text \<open>
  How the process ends, what it has printed on standard output and on standard error,
  and the requests it has sent.
\<close>

datatype ending = Exit nat | Panicked

record Run =
  ended :: ending
  printed :: string
  complained :: string
  requests :: Client

definition main :: "World \<Rightarrow> World list \<Rightarrow> Scanner \<Rightarrow> Run option" where
  "main w ws stdin =
     (case loadConfig w ''config.json'' of
        (config, Some err) \<Rightarrow>
          Some \<lparr>ended = Exit 1,
                printed = ''Error loading config: '' @ errorText err @ ''\<newline>'',
                complained = [], requests = []\<rparr>
      | (config, None) \<Rightarrow>
          (case flag_Parse w of
             Inl (status, message) \<Rightarrow>
               Some \<lparr>ended = Exit status, printed = [], complained = message, requests = []\<rparr>
           | Inr (prompt, interactive) \<Rightarrow>
               if os_Getenv w ''OPENAI_API_KEY'' = [] then
                 Some \<lparr>ended = Exit 1,
                       printed = ''Error: OPENAI_API_KEY not found in env\<newline>'',
                       complained = [], requests = []\<rparr>
               else if interactive then
                 (case runInteractiveMode ws [] config stdin [] of
                    None \<Rightarrow> None
                  | Some (Continue s) \<Rightarrow> None
                  | Some (Returned s) \<Rightarrow>
                      Some \<lparr>ended = Exit 0, printed = stdout s, complained = [],
                            requests = client s\<rparr>
                  | Some (Crashed s) \<Rightarrow>
                      Some \<lparr>ended = Panicked, printed = stdout s, complained = [],
                            requests = client s\<rparr>)
               else if prompt = [] then
                 Some \<lparr>ended = Exit 1,
                       printed = ''Error: prompt is required in non-interactive mode\<newline>'',
                       complained = flag_Usage w, requests = []\<rparr>
               else
                 (case callOpenAI w [] config
                         [\<lparr>Role = ChatMessageRoleSystem, Content = SystemPrompt config\<rparr>,
                          \<lparr>Role = ChatMessageRoleUser, Content = prompt\<rparr>] of
                    (IndexPanic, c) \<Rightarrow>
                      Some \<lparr>ended = Panicked, printed = [], complained = [], requests = c\<rparr>
                  | (Failure err, c) \<Rightarrow>
                      Some \<lparr>ended = Exit 1, printed = ''Error: '' @ errorText err @ ''\<newline>'',
                            complained = [], requests = c\<rparr>
                  | (Reply response, c) \<Rightarrow>
                      (case printFormattedResponse w response (Style config) (AIName config)
                              (Model config) [] of
                         (Some err, out) \<Rightarrow>
                           Some \<lparr>ended = Exit 1,
                                 printed = out @ ''Error formatting response: '' @ errorText err
                                             @ ''\<newline>'',
                                 complained = [], requests = c\<rparr>
                       | (None, out) \<Rightarrow>
                           Some \<lparr>ended = Exit 0, printed = out, complained = [], requests = c\<rparr>))))"

text \<open>The request of a turn: the transcript with the user message at its end.\<close>

definition userTurnRequest :: "Config \<Rightarrow> Session \<Rightarrow> string \<Rightarrow> ChatCompletionRequest" where
  "userTurnRequest config s userMessage =
     \<lparr>RequestModel = Model config,
      Messages = messages s @ [\<lparr>Role = ChatMessageRoleUser, Content = userMessage\<rparr>]\<rparr>"

section \<open>Concrete environments and sessions\<close>

definition exampleConfig :: Config where
  "exampleConfig = \<lparr>Model = ''gpt-x'', AIName = ''Bot'', SystemPrompt = ''be terse'', Style = ''dark''\<rparr>"

definition exampleWorld :: World where
  "exampleWorld =
     \<lparr>os_Open = (\<lambda>path. if path = ''config.json'' then Inr ''{}'' else Inl (Error ''no such file'')),
      json_Decode = (\<lambda>text. (exampleConfig, None)),
      flag_Parse = Inr (''2+2'', False),
      flag_Usage = ''Usage'',
      os_Getenv = (\<lambda>name. if name = ''OPENAI_API_KEY'' then ''key'' else []),
      os_Getwd = Inr ''/home/u/work'',
      user_Current = Inr ''/home/u'',
      os_ReadFile = (\<lambda>name. if name = ''notes.txt'' then Inr ''hello''
                            else Inl (Error ''no such file'')),
      remote = (\<lambda>request. Inr \<lparr>Choices =
                  [\<lparr>Message = \<lparr>Role = ChatMessageRoleAssistant, Content = ''4''\<rparr>\<rparr>]\<rparr>),
      lipgloss_Render = (\<lambda>colour bold text. text),
      glamour_NewTermRenderer = (\<lambda>path. Inr (\<lambda>text. Inr text))\<rparr>"

definition failingWorld :: World where
  "failingWorld = exampleWorld\<lparr>remote := (\<lambda>request. Inl (Error ''timeout''))\<rparr>"

definition choicelessWorld :: World where
  "choicelessWorld = exampleWorld\<lparr>remote := (\<lambda>request. Inr \<lparr>Choices = []\<rparr>)\<rparr>"

definition exampleScanner :: "string list \<Rightarrow> Scanner" where
  "exampleScanner input =
     \<lparr>pending = map (\<lambda>text. (Some text, None)) input, atEnd = None, Err = None\<rparr>"

definition exampleSession :: "bool \<Rightarrow> string \<Rightarrow> string list \<Rightarrow> string list \<Rightarrow> Session" where
  "exampleSession multi file buffer input =
     \<lparr>messages = [\<lparr>Role = ChatMessageRoleSystem, Content = ''be terse''\<rparr>],
      contextFile = file,
      isMultiline = multi,
      lines = buffer,
      scanner = exampleScanner input,
      client = [],
      stdout = []\<rparr>"

section \<open>Facts about the helpers\<close>

lemma lowerByte_colon: "lowerByte c = CHR '':'' \<Longrightarrow> c = CHR '':''"
  by (auto simp add: lowerByte_def char_of_eq_iff take_bit_eq_mod split: if_splits)

lemma ToLower_colon: "ToLower line = CHR '':'' # rest \<Longrightarrow> HasPrefix line '':''"
  by (cases line) (auto simp: HasPrefix_def dest: lowerByte_colon split: if_splits)

text \<open>
  The capital I with a dot above lowers to \<^verbatim>\<open>i\<close>: the line \<^verbatim>\<open>:MULT\<close> followed by it is
  the command \<^verbatim>\<open>:multi\<close>, in either mode.
\<close>

lemma ToLower_dotted_capital_I: "ToLower ('':MULT'' @ [CHR 0xC4, CHR 0xB0]) = cmdMulti"
  by (simp add: lowerByte_def char_of_eq_iff)

lemma dotted_capital_I_is_multi:
  "isMultiline (state_of (iteration exampleWorld exampleConfig
      (exampleSession False ''notes.txt'' [] ['':MULT'' @ [CHR 0xC4, CHR 0xB0]])))
   \<and> messages (state_of (iteration exampleWorld exampleConfig
        (exampleSession False ''notes.txt'' [] ['':MULT'' @ [CHR 0xC4, CHR 0xB0]])))
      = [\<lparr>Role = ChatMessageRoleSystem, Content = ''be terse''\<rparr>]
   \<and> \<not> isMultiline (state_of (iteration exampleWorld exampleConfig
        (exampleSession True ''notes.txt'' [''a''] ['':MULT'' @ [CHR 0xC4, CHR 0xB0]])))"
  by code_simp

lemma multilineLine_scanner: "scanner (snd (multilineLine line s)) = scanner s"
  by (simp add: multilineLine_def say_def Let_def)

lemma multilineLoop_line:
  "pending (scanner s) = (Some line, e) # rest \<Longrightarrow>
   multilineLoop s =
     (case multilineLine line (s\<lparr>scanner := (scanner s)\<lparr>pending := rest, Err := e\<rparr>\<rparr>) of
        (Break, s') \<Rightarrow> s'
      | (Next, s') \<Rightarrow> multilineLoop s')"
  by (subst multilineLoop.simps) (simp add: Scan_def)

lemma multilineLoop_end:
  "pending (scanner s) = [] \<Longrightarrow>
   multilineLoop s = s\<lparr>scanner := (scanner s)\<lparr>Err := atEnd (scanner s)\<rparr>\<rparr>"
  by (subst multilineLoop.simps) (simp add: Scan_def)

lemma multilineLoop_fail:
  "pending (scanner s) = (None, e) # rest \<Longrightarrow>
   multilineLoop s = s\<lparr>scanner := (scanner s)\<lparr>pending := rest, Err := e\<rparr>\<rparr>"
  by (subst multilineLoop.simps) (simp add: Scan_def)

lemmas example_defs =
  exampleConfig_def exampleWorld_def failingWorld_def choicelessWorld_def
  exampleScanner_def exampleSession_def

lemmas lower_defs = lowerByte_def char_of_eq_iff HasPrefix_def TrimPrefix_def

lemma sendUserTurn_failed:
  "remote w (userTurnRequest config s u) = Inl err \<Longrightarrow>
   sendUserTurn w config p u s =
     Continue (s\<lparr>messages := messages s @ [\<lparr>Role = ChatMessageRoleUser, Content = u\<rparr>],
                 client := client s @ [userTurnRequest config s u],
                 stdout := stdout s @ p @ errorText err @ ''\<newline>''\<rparr>)"
  by (simp add: sendUserTurn_def callOpenAI_def CreateChatCompletion_def say_def
      userTurnRequest_def Let_def)

lemma sendUserTurn_client:
  "client (state_of (sendUserTurn w config p u s)) = client s @ [userTurnRequest config s u]"
  by (simp add: sendUserTurn_def callOpenAI_def CreateChatCompletion_def say_def
      userTurnRequest_def Let_def split: sum.splits list.splits prod.splits option.splits)

lemma sendUserTurn_messages:
  "messages (state_of (sendUserTurn w config p u s)) =
     messages s @ \<lparr>Role = ChatMessageRoleUser, Content = u\<rparr> #
       (case fst (callOpenAI w (client s) config (messages s @ [\<lparr>Role = ChatMessageRoleUser, Content = u\<rparr>])) of
          Reply response \<Rightarrow> [\<lparr>Role = ChatMessageRoleAssistant, Content = response\<rparr>]
        | Failure err \<Rightarrow> []
        | IndexPanic \<Rightarrow> [])"
  by (simp add: sendUserTurn_def say_def Let_def split: reply.splits prod.splits option.splits)

lemma sendUserTurn_rest:
  "contextFile (state_of (sendUserTurn w config p u s)) = contextFile s"
  "isMultiline (state_of (sendUserTurn w config p u s)) = isMultiline s"
  "lines (state_of (sendUserTurn w config p u s)) = lines s"
  "scanner (state_of (sendUserTurn w config p u s)) = scanner s"
  by (simp_all add: sendUserTurn_def say_def Let_def split: reply.splits prod.splits option.splits)

lemma multilineLine_keeps:
  "messages (snd (multilineLine line s)) = messages s"
  "client (snd (multilineLine line s)) = client s"
  "contextFile (snd (multilineLine line s)) = contextFile s"
  by (simp_all add: multilineLine_def say_def Let_def)

lemma multilineLoop_keeps:
  "messages (multilineLoop s) = messages s \<and> client (multilineLoop s) = client s
   \<and> contextFile (multilineLoop s) = contextFile s"
proof (induction s rule: multilineLoop.induct)
  case (1 s)
  show ?case
  proof (cases "pending (scanner s)")
    case Nil
    then show ?thesis by (simp add: multilineLoop_end)
  next
    case (Cons tok rest)
    obtain got e where tok: "tok = (got, e)" by (cases tok)
    show ?thesis
    proof (cases got)
      case None
      then show ?thesis using Cons tok by (simp add: multilineLoop_fail)
    next
      case (Some line)
      let ?s = "s\<lparr>scanner := (scanner s)\<lparr>pending := rest, Err := e\<rparr>\<rparr>"
      obtain f s' where body: "multilineLine line ?s = (f, s')" by (cases "multilineLine line ?s")
      have scan: "Scan (scanner s) = (True, line, (scanner s)\<lparr>pending := rest, Err := e\<rparr>)"
        using Cons tok Some by (simp add: Scan_def)
      have keep: "messages s' = messages s" "client s' = client s" "contextFile s' = contextFile s"
        using multilineLine_keeps [of line ?s] body by simp_all
      show ?thesis
      proof (cases f)
        case Next
        with "1.IH" [OF scan [symmetric] refl refl body [symmetric]] keep
        have "messages (multilineLoop s') = messages s \<and> client (multilineLoop s') = client s
              \<and> contextFile (multilineLoop s') = contextFile s" by simp
        then show ?thesis using Cons tok Some body Next by (simp add: multilineLoop_line)
      next
        case Break
        then show ?thesis using Cons tok Some body keep by (simp add: multilineLoop_line)
      qed
    qed
  qed
qed

lemma ToLower_file:
  assumes "HasPrefix L cmdFile"
  shows "take 6 (ToLower L) = cmdFile"
proof -
  have six: "length cmdFile = 6"
    by simp
  from assms have "take 6 L = cmdFile"
    unfolding HasPrefix_def six .
  then have "L = cmdFile @ drop 6 L"
    by (metis append_take_drop_id)
  then obtain r where "L = cmdFile @ r" ..
  then show ?thesis
    by (simp add: lowerByte_def)
qed

lemma file_not_command:
  assumes "HasPrefix L cmdFile"
  shows "ToLower L \<noteq> cmdQuit" and "ToLower L \<noteq> cmdMulti"
  using ToLower_file [OF assms] by auto

section \<open>The reply of \<^verbatim>\<open>callOpenAI\<close>\<close>

text \<open>
  Claim C10. \<^verbatim>\<open>callOpenAI\<close> returns the error exactly when the remote call fails. When
  the call succeeds it indexes \<^verbatim>\<open>resp.Choices[0]\<close> with no check: with at least one
  choice it returns the content of the first, and with an empty list of choices the error
  branch is not taken and the index panics. So it returns without a panic exactly when
  every successful response carries a choice. In each case the request has been sent.
\<close>

theorem callOpenAI_first_choice:
  "(\<forall>err. remote w \<lparr>RequestModel = Model config, Messages = msgs\<rparr> = Inl err \<longrightarrow>
      fst (callOpenAI w cl config msgs) = Failure err)
   \<and> (\<forall>resp. remote w \<lparr>RequestModel = Model config, Messages = msgs\<rparr> = Inr resp \<longrightarrow>
        (Choices resp = [] \<longrightarrow> fst (callOpenAI w cl config msgs) = IndexPanic)
        \<and> (\<forall>choice others. Choices resp = choice # others \<longrightarrow>
             fst (callOpenAI w cl config msgs) = Reply (Content (Message choice))))
   \<and> (fst (callOpenAI w cl config msgs) \<noteq> IndexPanic \<longleftrightarrow>
        (\<forall>resp. remote w \<lparr>RequestModel = Model config, Messages = msgs\<rparr> = Inr resp \<longrightarrow>
           Choices resp \<noteq> []))
   \<and> snd (callOpenAI w cl config msgs) = cl @ [\<lparr>RequestModel = Model config, Messages = msgs\<rparr>]"
  by (auto simp: callOpenAI_def CreateChatCompletion_def split: sum.splits list.splits)

theorem callOpenAI_first_choice_witness:
  "remote choicelessWorld \<lparr>RequestModel = Model exampleConfig, Messages = []\<rparr> = Inr \<lparr>Choices = []\<rparr>
   \<and> fst (callOpenAI choicelessWorld [] exampleConfig []) = IndexPanic
   \<and> remote failingWorld \<lparr>RequestModel = Model exampleConfig, Messages = []\<rparr> = Inl (Error ''timeout'')
   \<and> fst (callOpenAI failingWorld [] exampleConfig []) = Failure (Error ''timeout'')
   \<and> fst (callOpenAI exampleWorld [] exampleConfig []) = Reply ''4''"
proof -
  have empty: "remote choicelessWorld \<lparr>RequestModel = Model exampleConfig, Messages = []\<rparr>
                 = Inr \<lparr>Choices = []\<rparr>"
    by (simp add: example_defs)
  have failing: "remote failingWorld \<lparr>RequestModel = Model exampleConfig, Messages = []\<rparr>
                   = Inl (Error ''timeout'')"
    by (simp add: example_defs)
  have fine: "remote exampleWorld \<lparr>RequestModel = Model exampleConfig, Messages = []\<rparr>
                = Inr \<lparr>Choices = [\<lparr>Message = \<lparr>Role = ChatMessageRoleAssistant, Content = ''4''\<rparr>\<rparr>]\<rparr>"
    by (simp add: example_defs)
  from empty callOpenAI_first_choice [of choicelessWorld exampleConfig "[]" "[]"]
  have "fst (callOpenAI choicelessWorld [] exampleConfig []) = IndexPanic"
    by simp
  moreover from failing callOpenAI_first_choice [of failingWorld exampleConfig "[]" "[]"]
  have "fst (callOpenAI failingWorld [] exampleConfig []) = Failure (Error ''timeout'')"
    by simp
  moreover from fine callOpenAI_first_choice [of exampleWorld exampleConfig "[]" "[]"]
  have "fst (callOpenAI exampleWorld [] exampleConfig []) = Reply ''4''"
    by simp
  ultimately show ?thesis
    using empty failing by simp
qed

section \<open>The command \<^verbatim>\<open>:q\<close>\<close>

text \<open>
  Claim C1, as amended. A line whose lowercase form is \<^verbatim>\<open>:q\<close> ends the loop when the
  session is in single-line mode: the pass returns, so the loop returns at this pass
  whatever would come after it, and the transcript, the requests sent, the context file,
  the mode and the pending lines are as before. The line is taken from the input, and
  standard output gains the prompt and the exit notice with its empty line, nothing else.
  In multi-line mode the same line is no command: it is appended to the pending lines and
  the inner loop reads on.
\<close>

theorem quit_in_single_line_mode:
  assumes "ToLower line = cmdQuit"
  shows "(\<forall>ok sc. \<not> isMultiline s \<and> Scan (scanner s) = (ok, line, sc) \<longrightarrow>
            is_Returned (iteration w config s)
            \<and> messages (state_of (iteration w config s)) = messages s
            \<and> client (state_of (iteration w config s)) = client s
            \<and> contextFile (state_of (iteration w config s)) = contextFile s
            \<and> isMultiline (state_of (iteration w config s)) = isMultiline s
            \<and> lines (state_of (iteration w config s)) = lines s
            \<and> scanner (state_of (iteration w config s)) = sc
            \<and> stdout (state_of (iteration w config s))
                = stdout s @ formatInputPrefix w (getCurrentDirectory w) False (AIName config)
                    @ ''Exiting interactive mode.\<newline>\<newline>''
            \<and> (\<forall>ws. loop (w # ws) config s = Some (Returned (state_of (iteration w config s)))))
         \<and> multilineLine line s = (Next, s\<lparr>lines := lines s @ [line]\<rparr>)"
proof -
  have colon: "HasPrefix line '':''"
    using assms by (rule ToLower_colon)
  have "multilineLine line s = (Next, s\<lparr>lines := lines s @ [line]\<rparr>)"
    using assms colon by (simp add: multilineLine_def Let_def)
  moreover have "\<And>ok sc. \<not> isMultiline s \<Longrightarrow> Scan (scanner s) = (ok, line, sc) \<Longrightarrow>
      iteration w config s =
        Returned (say ''Exiting interactive mode.\<newline>\<newline>''
          ((say (formatInputPrefix w (getCurrentDirectory w) (isMultiline s) (AIName config)) s)
              \<lparr>scanner := sc\<rparr>))"
    using assms by (simp add: iteration_def singleLineBranch_def Let_def say_def)
  ultimately show ?thesis
    by (simp add: say_def)
qed

theorem quit_in_single_line_mode_witness:
  "ToLower '':Q'' = cmdQuit
   \<and> \<not> isMultiline (exampleSession False [] [] ['':Q'', ''more''])
   \<and> Scan (scanner (exampleSession False [] [] ['':Q'', ''more'']))
       = (True, '':Q'', exampleScanner [''more''])
   \<and> is_Returned (iteration exampleWorld exampleConfig (exampleSession False [] [] ['':Q'', ''more'']))
   \<and> messages (state_of (iteration exampleWorld exampleConfig
         (exampleSession False [] [] ['':Q'', ''more''])))
       = [\<lparr>Role = ChatMessageRoleSystem, Content = ''be terse''\<rparr>]
   \<and> client (state_of (iteration exampleWorld exampleConfig
         (exampleSession False [] [] ['':Q'', ''more'']))) = []
   \<and> stdout (state_of (iteration exampleWorld exampleConfig
         (exampleSession False [] [] ['':Q'', ''more''])))
       = ''(~/work) You: Exiting interactive mode.\<newline>\<newline>''
   \<and> map_option is_Returned
        (loop [exampleWorld, failingWorld] exampleConfig (exampleSession False [] [] ['':Q'', ''more'']))
       = Some True"
proof -
  let ?s = "exampleSession False [] [] ['':Q'', ''more'']"
  have quit: "ToLower '':Q'' = cmdQuit"
    by (simp add: lower_defs)
  have single: "\<not> isMultiline ?s"
    by (simp add: example_defs)
  have scan: "Scan (scanner ?s) = (True, '':Q'', exampleScanner [''more''])"
    by (simp add: example_defs Scan_def)
  from quit_in_single_line_mode [OF quit, of ?s exampleWorld exampleConfig] single scan
  have "is_Returned (iteration exampleWorld exampleConfig ?s)
        \<and> messages (state_of (iteration exampleWorld exampleConfig ?s)) = messages ?s
        \<and> client (state_of (iteration exampleWorld exampleConfig ?s)) = client ?s
        \<and> stdout (state_of (iteration exampleWorld exampleConfig ?s))
            = stdout ?s
              @ formatInputPrefix exampleWorld (getCurrentDirectory exampleWorld) False
                  (AIName exampleConfig)
              @ ''Exiting interactive mode.\<newline>\<newline>''
        \<and> loop [exampleWorld, failingWorld] exampleConfig ?s
            = Some (Returned (state_of (iteration exampleWorld exampleConfig ?s)))"
    by blast
  moreover have "messages ?s = [\<lparr>Role = ChatMessageRoleSystem, Content = ''be terse''\<rparr>]"
    and "client ?s = []" and "stdout ?s = []"
    by (simp_all add: example_defs)
  moreover have "formatInputPrefix exampleWorld (getCurrentDirectory exampleWorld) False
      (AIName exampleConfig) = ''(~/work) You: ''"
    by (simp add: formatInputPrefix_def getCurrentDirectory_def example_defs HasPrefix_def
        TrimPrefix_def)
  ultimately show ?thesis
    using quit single scan by simp
qed

text \<open>
  Claim C1 as it was stated fails in multi-line mode: there the line \<^verbatim>\<open>:q\<close>, followed
  by the end of input, does not end the loop; it is sent to the remote end as a user
  message and the reply is recorded.
\<close>

theorem quit_in_multi_line_mode_counterexample:
  "ToLower '':q'' = cmdQuit
   \<and> \<not> is_Returned (iteration exampleWorld exampleConfig (exampleSession True [] [] ['':q'']))
   \<and> messages (state_of (iteration exampleWorld exampleConfig (exampleSession True [] [] ['':q''])))
       = [\<lparr>Role = ChatMessageRoleSystem, Content = ''be terse''\<rparr>,
          \<lparr>Role = ChatMessageRoleUser, Content = '':q''\<rparr>,
          \<lparr>Role = ChatMessageRoleAssistant, Content = ''4''\<rparr>]"
  by code_simp

section \<open>The command \<^verbatim>\<open>:remove\<close>\<close>

text \<open>
  Claim C7. In multi-line mode a line whose lowercase form is \<^verbatim>\<open>:remove\<close> leaves empty
  pending lines empty and prints the notice that there are no lines to remove; with
  pending lines it drops exactly the latest one and keeps the earlier ones as they are. In
  both cases the mode is as before and the inner loop goes on reading with the next line.
\<close>

theorem remove_in_multi_line_mode:
  assumes "ToLower line = cmdRemove"
  shows "fst (multilineLine line s) = Next
         \<and> isMultiline (snd (multilineLine line s)) = isMultiline s
         \<and> messages (snd (multilineLine line s)) = messages s
         \<and> (lines s = [] \<longrightarrow>
              lines (snd (multilineLine line s)) = []
              \<and> stdout (snd (multilineLine line s))
                  = stdout s @ ''No lines to remove.\<newline>\<newline>'')
         \<and> (\<forall>earlier latest. lines s = earlier @ [latest] \<longrightarrow>
              lines (snd (multilineLine line s)) = earlier
              \<and> stdout (snd (multilineLine line s))
                  = stdout s @ ''Last line removed.\<newline>\<newline>'')
         \<and> (\<forall>e rest. pending (scanner s) = (Some line, e) # rest \<longrightarrow>
              multilineLoop s =
                multilineLoop
                  (snd (multilineLine line (s\<lparr>scanner := (scanner s)\<lparr>pending := rest, Err := e\<rparr>\<rparr>))))"
proof -
  have colon: "HasPrefix line '':''"
    using assms by (rule ToLower_colon)
  have body: "\<And>t. multilineLine line t =
      (if length (lines t) > 0
       then (Next, (say ''Last line removed.\<newline>\<newline>'' t)\<lparr>lines := butlast (lines t)\<rparr>)
       else (Next, say ''No lines to remove.\<newline>\<newline>'' t))"
    using assms colon by (simp add: multilineLine_def Let_def)
  have goes_on: "\<And>e rest. pending (scanner s) = (Some line, e) # rest \<Longrightarrow>
      multilineLoop s =
        multilineLoop
          (snd (multilineLine line (s\<lparr>scanner := (scanner s)\<lparr>pending := rest, Err := e\<rparr>\<rparr>)))"
    by (simp add: multilineLoop_line body)
  show ?thesis
    using goes_on by (auto simp: body say_def)
qed

theorem remove_in_multi_line_mode_witness:
  "ToLower '':Remove'' = cmdRemove
   \<and> lines (exampleSession True [] [] []) = []
   \<and> multilineLine '':Remove'' (exampleSession True [] [] [])
       = (Next, (exampleSession True [] [] [])\<lparr>stdout := ''No lines to remove.\<newline>\<newline>''\<rparr>)
   \<and> lines (exampleSession True [] [''a'', ''b''] []) = [''a''] @ [''b'']
   \<and> lines (snd (multilineLine '':Remove'' (exampleSession True [] [''a'', ''b''] []))) = [''a'']
   \<and> isMultiline (snd (multilineLine '':Remove'' (exampleSession True [] [''a'', ''b''] [])))
   \<and> pending (scanner (exampleSession True [] [''a'', ''b''] ['':Remove'']))
       = [(Some '':Remove'', None)]
   \<and> lines (multilineLoop (exampleSession True [] [''a'', ''b''] ['':Remove''])) = [''a'']"
proof -
  let ?empty = "exampleSession True [] [] []"
  let ?two = "exampleSession True [] [''a'', ''b''] []"
  let ?fed = "exampleSession True [] [''a'', ''b''] ['':Remove'']"
  have remove: "ToLower '':Remove'' = cmdRemove"
    by (simp add: lower_defs)
  have none: "lines ?empty = []" and two: "lines ?two = [''a''] @ [''b'']"
    and fed: "pending (scanner ?fed) = [(Some '':Remove'', None)]"
    by (simp_all add: example_defs)
  note empty_case = remove_in_multi_line_mode [OF remove, of ?empty]
  note two_case = remove_in_multi_line_mode [OF remove, of ?two]
  note fed_case = remove_in_multi_line_mode [OF remove, of ?fed]
  from empty_case none
  have "fst (multilineLine '':Remove'' ?empty) = Next"
    and "lines (snd (multilineLine '':Remove'' ?empty)) = []"
    and "stdout (snd (multilineLine '':Remove'' ?empty)) = stdout ?empty @ ''No lines to remove.\<newline>\<newline>''"
    by blast+
  then have first: "multilineLine '':Remove'' ?empty
      = (Next, ?empty\<lparr>stdout := ''No lines to remove.\<newline>\<newline>''\<rparr>)"
    by (simp add: multilineLine_def Let_def say_def lower_defs example_defs)
  from two_case two
  have second: "lines (snd (multilineLine '':Remove'' ?two)) = [''a'']"
    and third: "isMultiline (snd (multilineLine '':Remove'' ?two)) = isMultiline ?two"
    by blast+
  from fed_case fed
  have "multilineLoop ?fed =
          multilineLoop (snd (multilineLine '':Remove''
            (?fed\<lparr>scanner := (scanner ?fed)\<lparr>pending := [], Err := None\<rparr>\<rparr>)))"
    by blast
  then have fourth: "lines (multilineLoop ?fed) = [''a'']"
    by (simp add: multilineLine_def Let_def say_def lower_defs example_defs multilineLoop_end)
  show ?thesis
    using remove none two fed first second third fourth by (simp add: example_defs)
qed

section \<open>Turns that fail at the remote end\<close>

lemma multilineBranch_turn:
  "(\<exists>p u s1. multilineBranch w config s = sendUserTurn w config p u s1
       \<and> messages s1 = messages s \<and> client s1 = client s \<and> contextFile s1 = contextFile s)
   \<or> (client (state_of (multilineBranch w config s)) = client s
       \<and> messages (state_of (multilineBranch w config s)) = messages s
       \<and> contextFile (state_of (multilineBranch w config s)) = contextFile s
       \<and> is_Continue (multilineBranch w config s))"
proof -
  let ?s1 = "multilineLoop (say ''\<newline>'' s)"
  have keep: "messages ?s1 = messages s" "client ?s1 = client s" "contextFile ?s1 = contextFile s"
    using multilineLoop_keeps [of "say ''\<newline>'' s"] by (simp_all add: say_def)
  show ?thesis
  proof (cases "Err (scanner ?s1) = None \<and> length (lines ?s1) > 0")
    case True
    then have "multilineBranch w config s =
        sendUserTurn w config ''Error communicating with AI: '' (Join (lines ?s1) ''\<newline>'') ?s1"
      by (simp add: multilineBranch_def Let_def)
    with keep show ?thesis by blast
  next
    case False
    then have "client (state_of (multilineBranch w config s)) = client s
       \<and> messages (state_of (multilineBranch w config s)) = messages s
       \<and> contextFile (state_of (multilineBranch w config s)) = contextFile s
       \<and> is_Continue (multilineBranch w config s)"
      using keep by (auto simp: multilineBranch_def Let_def say_def split: option.splits)
    then show ?thesis by blast
  qed
qed

lemma singleLineBranch_turn:
  "(\<exists>p u s1. singleLineBranch w config s = sendUserTurn w config p u s1
       \<and> messages s1 = messages s \<and> client s1 = client s \<and> contextFile s1 = contextFile s)
   \<or> client (state_of (singleLineBranch w config s)) = client s"
proof -
  obtain ok L sc where scan: "Scan (scanner s) = (ok, L, sc)"
    by (cases "Scan (scanner s)")
  show ?thesis
  proof (cases "ToLower L = cmdQuit \<or> ToLower L = cmdMulti \<or> HasPrefix L cmdFile")
    case True
    then have "client (state_of (singleLineBranch w config s)) = client s"
      using scan by (auto simp: singleLineBranch_def Let_def say_def split: sum.splits)
    then show ?thesis by blast
  next
    case False
    let ?u = "if contextFile s \<noteq> [] then ''(Context: '' @ contextFile s @ '') '' @ L else L"
    from False have "singleLineBranch w config s =
        sendUserTurn w config ''Error: '' ?u (s\<lparr>scanner := sc\<rparr>)"
      using scan by (simp add: singleLineBranch_def Let_def)
    moreover have "messages (s\<lparr>scanner := sc\<rparr>) = messages s"
      "client (s\<lparr>scanner := sc\<rparr>) = client s" "contextFile (s\<lparr>scanner := sc\<rparr>) = contextFile s"
      by simp_all
    ultimately show ?thesis by blast
  qed
qed

lemma iteration_turn:
  "(\<exists>p u s1. iteration w config s = sendUserTurn w config p u s1
       \<and> messages s1 = messages s \<and> client s1 = client s \<and> contextFile s1 = contextFile s)
   \<or> client (state_of (iteration w config s)) = client s"
proof -
  let ?s = "say (formatInputPrefix w (getCurrentDirectory w) (isMultiline s) (AIName config)) s"
  have same: "messages ?s = messages s" "client ?s = client s" "contextFile ?s = contextFile s"
    "isMultiline ?s = isMultiline s"
    by (simp_all add: say_def)
  show ?thesis
  proof (cases "isMultiline s")
    case True
    then have "iteration w config s = multilineBranch w config ?s"
      by (simp add: iteration_def Let_def say_def)
    then show ?thesis
      using multilineBranch_turn [of w config ?s] same by metis
  next
    case False
    then have "iteration w config s = singleLineBranch w config ?s"
      by (simp add: iteration_def Let_def say_def)
    then show ?thesis
      using singleLineBranch_turn [of w config ?s] same by metis
  qed
qed

lemma failed_turn:
  assumes sent: "client (state_of (iteration w config s)) = client s @ [request]"
    and failed: "remote w request = Inl err"
  shows "\<exists>s' u. iteration w config s = Continue s'
           \<and> messages s' = messages s @ [\<lparr>Role = ChatMessageRoleUser, Content = u\<rparr>]
           \<and> request = \<lparr>RequestModel = Model config, Messages = messages s'\<rparr>"
proof -
  from sent have "client (state_of (iteration w config s)) \<noteq> client s"
    by simp
  with iteration_turn [of w config s]
  obtain p u s1 where turn: "iteration w config s = sendUserTurn w config p u s1"
    and same: "messages s1 = messages s" "client s1 = client s"
    by blast
  from sent turn same have request: "request = userTurnRequest config s1 u"
    by (simp add: sendUserTurn_client)
  with failed have "remote w (userTurnRequest config s1 u) = Inl err"
    by simp
  from sendUserTurn_failed [OF this, of p] turn same request show ?thesis
    by (simp add: userTurnRequest_def)
qed

text \<open>
  Claim C3, as amended. When the request that a pass of the loop sends is answered by a
  failure, the transcript after the pass is the transcript before it with exactly the user
  message of the turn at its end, which is the transcript that was sent: no reply is
  recorded and the user message is not taken back. The pass ends at its \<^verbatim>\<open>continue\<close>.
\<close>

theorem failed_turn_keeps_user_message:
  assumes "client (state_of (iteration w config s)) = client s @ [request]"
    and "remote w request = Inl err"
  shows "is_Continue (iteration w config s)
         \<and> messages (state_of (iteration w config s)) = Messages request
         \<and> (\<exists>content. Messages request
               = messages s @ [\<lparr>Role = ChatMessageRoleUser, Content = content\<rparr>])"
  using failed_turn [OF assms] by auto

theorem failed_turn_keeps_user_message_witness:
  "client (state_of (iteration failingWorld exampleConfig (exampleSession False [] [] [''hi''])))
     = client (exampleSession False [] [] [''hi''])
       @ [\<lparr>RequestModel = ''gpt-x'',
           Messages = [\<lparr>Role = ChatMessageRoleSystem, Content = ''be terse''\<rparr>,
                       \<lparr>Role = ChatMessageRoleUser, Content = ''hi''\<rparr>]\<rparr>]
   \<and> remote failingWorld
        \<lparr>RequestModel = ''gpt-x'',
         Messages = [\<lparr>Role = ChatMessageRoleSystem, Content = ''be terse''\<rparr>,
                     \<lparr>Role = ChatMessageRoleUser, Content = ''hi''\<rparr>]\<rparr> = Inl (Error ''timeout'')
   \<and> is_Continue (iteration failingWorld exampleConfig (exampleSession False [] [] [''hi'']))
   \<and> messages (state_of (iteration failingWorld exampleConfig (exampleSession False [] [] [''hi''])))
       = [\<lparr>Role = ChatMessageRoleSystem, Content = ''be terse''\<rparr>,
          \<lparr>Role = ChatMessageRoleUser, Content = ''hi''\<rparr>]"
proof -
  let ?s = "exampleSession False [] [] [''hi'']"
  let ?request = "\<lparr>RequestModel = ''gpt-x'',
                   Messages = [\<lparr>Role = ChatMessageRoleSystem, Content = ''be terse''\<rparr>,
                               \<lparr>Role = ChatMessageRoleUser, Content = ''hi''\<rparr>]\<rparr>"
  have sent: "client (state_of (iteration failingWorld exampleConfig ?s)) = client ?s @ [?request]"
    by code_simp
  have failed: "remote failingWorld ?request = Inl (Error ''timeout'')"
    by (simp add: example_defs)
  from failed_turn_keeps_user_message [OF sent failed]
  have "is_Continue (iteration failingWorld exampleConfig ?s)"
    and "messages (state_of (iteration failingWorld exampleConfig ?s)) = Messages ?request"
    by blast+
  with sent failed show ?thesis
    by simp
qed

text \<open>
  Claim C3 as it was stated fails: after the failed turn on the input line \<^verbatim>\<open>hi\<close> the
  transcript differs from the transcript before the turn.
\<close>

theorem failed_turn_rollback_counterexample:
  "client (state_of (iteration failingWorld exampleConfig (exampleSession False [] [] [''hi''])))
     = client (exampleSession False [] [] [''hi''])
       @ [\<lparr>RequestModel = ''gpt-x'',
           Messages = [\<lparr>Role = ChatMessageRoleSystem, Content = ''be terse''\<rparr>,
                       \<lparr>Role = ChatMessageRoleUser, Content = ''hi''\<rparr>]\<rparr>]
   \<and> remote failingWorld
        \<lparr>RequestModel = ''gpt-x'',
         Messages = [\<lparr>Role = ChatMessageRoleSystem, Content = ''be terse''\<rparr>,
                     \<lparr>Role = ChatMessageRoleUser, Content = ''hi''\<rparr>]\<rparr> = Inl (Error ''timeout'')
   \<and> messages (exampleSession False [] [] [''hi''])
       = [\<lparr>Role = ChatMessageRoleSystem, Content = ''be terse''\<rparr>]
   \<and> messages (state_of (iteration failingWorld exampleConfig (exampleSession False [] [] [''hi''])))
       \<noteq> messages (exampleSession False [] [] [''hi''])"
  by code_simp

text \<open>
  Claim C4. When the request that a pass of the loop sends is answered by a failure, the
  transcript keeps what it held and what the pass appends holds no assistant message; the
  pass ends at its \<^verbatim>\<open>continue\<close>, so the loop goes on with the next pass from the state
  the failed turn left.
\<close>

theorem failed_call_no_assistant_message:
  assumes "client (state_of (iteration w config s)) = client s @ [request]"
    and "remote w request = Inl err"
  shows "take (length (messages s)) (messages (state_of (iteration w config s))) = messages s
         \<and> (\<forall>m \<in> set (drop (length (messages s)) (messages (state_of (iteration w config s)))).
              Role m \<noteq> ChatMessageRoleAssistant)
         \<and> is_Continue (iteration w config s)
         \<and> (\<forall>ws. loop (w # ws) config s = loop ws config (state_of (iteration w config s)))"
  using failed_turn [OF assms] by auto


theorem failed_call_no_assistant_message_witness:
  "client (state_of (iteration failingWorld exampleConfig
       (exampleSession True [] [''a''] [''b'', '':end'', '':multi'', '':q''])))
     = client (exampleSession True [] [''a''] [''b'', '':end'', '':multi'', '':q''])
       @ [\<lparr>RequestModel = ''gpt-x'',
           Messages = [\<lparr>Role = ChatMessageRoleSystem, Content = ''be terse''\<rparr>,
                       \<lparr>Role = ChatMessageRoleUser, Content = ''a\<newline>b''\<rparr>]\<rparr>]
   \<and> remote failingWorld
        \<lparr>RequestModel = ''gpt-x'',
         Messages = [\<lparr>Role = ChatMessageRoleSystem, Content = ''be terse''\<rparr>,
                     \<lparr>Role = ChatMessageRoleUser, Content = ''a\<newline>b''\<rparr>]\<rparr> = Inl (Error ''timeout'')
   \<and> is_Continue (iteration failingWorld exampleConfig
         (exampleSession True [] [''a''] [''b'', '':end'', '':multi'', '':q'']))
   \<and> loop [failingWorld, exampleWorld, exampleWorld] exampleConfig
         (exampleSession True [] [''a''] [''b'', '':end'', '':multi'', '':q''])
       = loop [exampleWorld, exampleWorld] exampleConfig
           (state_of (iteration failingWorld exampleConfig
              (exampleSession True [] [''a''] [''b'', '':end'', '':multi'', '':q''])))
   \<and> map_option is_Returned
        (loop [failingWorld, exampleWorld, exampleWorld] exampleConfig
           (exampleSession True [] [''a''] [''b'', '':end'', '':multi'', '':q'']))
       = Some True"
proof -
  let ?s = "exampleSession True [] [''a''] [''b'', '':end'', '':multi'', '':q'']"
  let ?request = "\<lparr>RequestModel = ''gpt-x'',
                   Messages = [\<lparr>Role = ChatMessageRoleSystem, Content = ''be terse''\<rparr>,
                               \<lparr>Role = ChatMessageRoleUser, Content = ''a\<newline>b''\<rparr>]\<rparr>"
  have sent: "client (state_of (iteration failingWorld exampleConfig ?s)) = client ?s @ [?request]"
    by code_simp
  have failed: "remote failingWorld ?request = Inl (Error ''timeout'')"
    by (simp add: example_defs)
  from failed_call_no_assistant_message [OF sent failed]
  have "is_Continue (iteration failingWorld exampleConfig ?s)"
    and "loop [failingWorld, exampleWorld, exampleWorld] exampleConfig ?s
           = loop [exampleWorld, exampleWorld] exampleConfig (state_of (iteration failingWorld exampleConfig ?s))"
    by blast+
  moreover have "map_option is_Returned
      (loop [exampleWorld, exampleWorld] exampleConfig
         (state_of (iteration failingWorld exampleConfig ?s))) = Some True"
    by code_simp
  ultimately show ?thesis
    using sent failed by simp
qed

section \<open>The context file\<close>

lemma iteration_single:
  "\<not> isMultiline s \<Longrightarrow>
   iteration w config s =
     singleLineBranch w config
       (say (formatInputPrefix w (getCurrentDirectory w) False (AIName config)) s)"
  by (simp add: iteration_def Let_def say_def)

lemma iteration_multi:
  "isMultiline s \<Longrightarrow>
   iteration w config s =
     multilineBranch w config
       (say (formatInputPrefix w (getCurrentDirectory w) True (AIName config)) s)"
  by (simp add: iteration_def Let_def say_def)

lemma TrimPrefix_file: "HasPrefix L cmdFile \<Longrightarrow> TrimPrefix L cmdFile = drop 6 L"
  by (simp add: TrimPrefix_def eval_nat_numeral)

text \<open>
  Claim C5. In single-line mode, a line that starts with the prefix \<^verbatim>\<open>:file \<close> (exactly
  these bytes) names the file that follows the prefix. When the file is read, the pass
  appends exactly one user message, \<^verbatim>\<open>Content of \<close> the name, a colon, a newline and
  the contents; it sets the context file to the name and sends no request. When the read
  fails, the transcript, the context file, the mode, the pending lines and the requests
  sent are as before. Either way the loop goes on.
\<close>

theorem file_command_in_single_line_mode:
  assumes "\<not> isMultiline s" and "Scan (scanner s) = (ok, L, sc)" and "HasPrefix L cmdFile"
  shows "(\<forall>C. os_ReadFile w (TrimPrefix L cmdFile) = Inr C \<longrightarrow>
            is_Continue (iteration w config s)
            \<and> messages (state_of (iteration w config s))
                = messages s @ [\<lparr>Role = ChatMessageRoleUser,
                                  Content = ''Content of '' @ TrimPrefix L cmdFile @ '':\<newline>'' @ C\<rparr>]
            \<and> contextFile (state_of (iteration w config s)) = TrimPrefix L cmdFile
            \<and> client (state_of (iteration w config s)) = client s
            \<and> isMultiline (state_of (iteration w config s)) = isMultiline s
            \<and> lines (state_of (iteration w config s)) = lines s)
         \<and> (\<forall>err. os_ReadFile w (TrimPrefix L cmdFile) = Inl err \<longrightarrow>
            is_Continue (iteration w config s)
            \<and> messages (state_of (iteration w config s)) = messages s
            \<and> contextFile (state_of (iteration w config s)) = contextFile s
            \<and> client (state_of (iteration w config s)) = client s
            \<and> isMultiline (state_of (iteration w config s)) = isMultiline s
            \<and> lines (state_of (iteration w config s)) = lines s)
         \<and> TrimPrefix L cmdFile = drop 6 L"
proof -
  note no_command = file_not_command [OF assms(3)]
  have pass: "iteration w config s =
      singleLineBranch w config
        (say (formatInputPrefix w (getCurrentDirectory w) False (AIName config)) s)"
    using assms(1) by (rule iteration_single)
  show ?thesis
    unfolding pass using assms(2,3) no_command TrimPrefix_file [OF assms(3)]
    by (simp add: singleLineBranch_def Let_def say_def readFile_def)
qed

theorem file_command_in_single_line_mode_witness:
  "\<not> isMultiline (exampleSession False [] [] ['':file notes.txt''])
   \<and> Scan (scanner (exampleSession False [] [] ['':file notes.txt'']))
       = (True, '':file notes.txt'', exampleScanner [])
   \<and> HasPrefix '':file notes.txt'' cmdFile
   \<and> os_ReadFile exampleWorld (TrimPrefix '':file notes.txt'' cmdFile) = Inr ''hello''
   \<and> messages (state_of (iteration exampleWorld exampleConfig
         (exampleSession False [] [] ['':file notes.txt''])))
       = [\<lparr>Role = ChatMessageRoleSystem, Content = ''be terse''\<rparr>,
          \<lparr>Role = ChatMessageRoleUser, Content = ''Content of notes.txt:\<newline>hello''\<rparr>]
   \<and> contextFile (state_of (iteration exampleWorld exampleConfig
         (exampleSession False [] [] ['':file notes.txt'']))) = ''notes.txt''
   \<and> client (state_of (iteration exampleWorld exampleConfig
         (exampleSession False [] [] ['':file notes.txt'']))) = []
   \<and> \<not> isMultiline (exampleSession False ''notes.txt'' [] ['':file gone.txt''])
   \<and> Scan (scanner (exampleSession False ''notes.txt'' [] ['':file gone.txt'']))
       = (True, '':file gone.txt'', exampleScanner [])
   \<and> HasPrefix '':file gone.txt'' cmdFile
   \<and> os_ReadFile exampleWorld (TrimPrefix '':file gone.txt'' cmdFile) = Inl (Error ''no such file'')
   \<and> messages (state_of (iteration exampleWorld exampleConfig
         (exampleSession False ''notes.txt'' [] ['':file gone.txt''])))
       = [\<lparr>Role = ChatMessageRoleSystem, Content = ''be terse''\<rparr>]
   \<and> contextFile (state_of (iteration exampleWorld exampleConfig
         (exampleSession False ''notes.txt'' [] ['':file gone.txt'']))) = ''notes.txt''"
proof -
  let ?s = "exampleSession False [] [] ['':file notes.txt'']"
  let ?t = "exampleSession False ''notes.txt'' [] ['':file gone.txt'']"
  have single: "\<not> isMultiline ?s" "\<not> isMultiline ?t"
    by (simp_all add: example_defs)
  have scan_s: "Scan (scanner ?s) = (True, '':file notes.txt'', exampleScanner [])"
    and scan_t: "Scan (scanner ?t) = (True, '':file gone.txt'', exampleScanner [])"
    by (simp_all add: example_defs Scan_def)
  have prefix_s: "HasPrefix '':file notes.txt'' cmdFile"
    and prefix_t: "HasPrefix '':file gone.txt'' cmdFile"
    by (simp_all add: HasPrefix_def)
  have read_s: "os_ReadFile exampleWorld (TrimPrefix '':file notes.txt'' cmdFile) = Inr ''hello''"
    and read_t: "os_ReadFile exampleWorld (TrimPrefix '':file gone.txt'' cmdFile)
                   = Inl (Error ''no such file'')"
    by (simp_all add: example_defs HasPrefix_def TrimPrefix_def)
  have name: "TrimPrefix '':file notes.txt'' cmdFile = ''notes.txt''"
    by (simp add: HasPrefix_def TrimPrefix_def)
  have before: "messages ?s = [\<lparr>Role = ChatMessageRoleSystem, Content = ''be terse''\<rparr>]"
    "messages ?t = [\<lparr>Role = ChatMessageRoleSystem, Content = ''be terse''\<rparr>]"
    "client ?s = []" "contextFile ?t = ''notes.txt''"
    by (simp_all add: example_defs)
  from file_command_in_single_line_mode [OF single(1) scan_s prefix_s, of exampleWorld exampleConfig]
    read_s
  have "messages (state_of (iteration exampleWorld exampleConfig ?s))
          = messages ?s @ [\<lparr>Role = ChatMessageRoleUser,
               Content = ''Content of '' @ TrimPrefix '':file notes.txt'' cmdFile @ '':\<newline>'' @ ''hello''\<rparr>]"
    and "contextFile (state_of (iteration exampleWorld exampleConfig ?s))
          = TrimPrefix '':file notes.txt'' cmdFile"
    and "client (state_of (iteration exampleWorld exampleConfig ?s)) = client ?s"
    by blast+
  then have loaded: "messages (state_of (iteration exampleWorld exampleConfig ?s))
          = [\<lparr>Role = ChatMessageRoleSystem, Content = ''be terse''\<rparr>,
             \<lparr>Role = ChatMessageRoleUser, Content = ''Content of notes.txt:\<newline>hello''\<rparr>]"
    "contextFile (state_of (iteration exampleWorld exampleConfig ?s)) = ''notes.txt''"
    "client (state_of (iteration exampleWorld exampleConfig ?s)) = []"
    by (simp_all add: name before)
  from file_command_in_single_line_mode [OF single(2) scan_t prefix_t, of exampleWorld exampleConfig]
    read_t
  have "messages (state_of (iteration exampleWorld exampleConfig ?t)) = messages ?t"
    and "contextFile (state_of (iteration exampleWorld exampleConfig ?t)) = contextFile ?t"
    by blast+
  then have missing: "messages (state_of (iteration exampleWorld exampleConfig ?t))
          = [\<lparr>Role = ChatMessageRoleSystem, Content = ''be terse''\<rparr>]"
    "contextFile (state_of (iteration exampleWorld exampleConfig ?t)) = ''notes.txt''"
    by (simp_all add: before)
  show ?thesis
    using single scan_s scan_t prefix_s prefix_t read_s read_t loaded missing by simp
qed


lemma take_turn: "take (Suc (length xs)) (xs @ x # ys) = xs @ [x]"
  by simp

lemma plain_line_message:
  assumes "\<not> isMultiline s" and "Scan (scanner s) = (ok, L, sc)"
    and "ToLower L \<noteq> cmdQuit" and "ToLower L \<noteq> cmdMulti" and "\<not> HasPrefix L cmdFile"
  shows "take (Suc (length (messages s))) (messages (state_of (iteration w config s)))
           = messages s @ [\<lparr>Role = ChatMessageRoleUser,
                Content = (if contextFile s \<noteq> [] then ''(Context: '' @ contextFile s @ '') '' @ L
                           else L)\<rparr>]"
    and "contextFile (state_of (iteration w config s)) = contextFile s"
proof -
  let ?s = "(say (formatInputPrefix w (getCurrentDirectory w) False (AIName config)) s)\<lparr>scanner := sc\<rparr>"
  let ?u = "if contextFile s \<noteq> [] then ''(Context: '' @ contextFile s @ '') '' @ L else L"
  have "iteration w config s = sendUserTurn w config ''Error: '' ?u ?s"
    using assms by (simp add: iteration_single singleLineBranch_def Let_def say_def)
  moreover have "messages ?s = messages s" "contextFile ?s = contextFile s"
    by (simp_all add: say_def)
  ultimately show "take (Suc (length (messages s))) (messages (state_of (iteration w config s)))
           = messages s @ [\<lparr>Role = ChatMessageRoleUser, Content = ?u\<rparr>]"
    and "contextFile (state_of (iteration w config s)) = contextFile s"
    by (simp_all only: sendUserTurn_messages sendUserTurn_rest take_turn)
qed

lemma multilineBranch_message:
  "messages (state_of (multilineBranch w config s)) = messages s
   \<or> take (Suc (length (messages s))) (messages (state_of (multilineBranch w config s)))
       = messages s @ [\<lparr>Role = ChatMessageRoleUser,
            Content = Join (lines (state_of (multilineBranch w config s))) ''\<newline>''\<rparr>]"
proof -
  let ?s1 = "multilineLoop (say ''\<newline>'' s)"
  have keep: "messages ?s1 = messages s"
    using multilineLoop_keeps [of "say ''\<newline>'' s"] by (simp add: say_def)
  show ?thesis
  proof (cases "Err (scanner ?s1) = None \<and> length (lines ?s1) > 0")
    case True
    then have "multilineBranch w config s =
        sendUserTurn w config ''Error communicating with AI: '' (Join (lines ?s1) ''\<newline>'') ?s1"
      by (simp add: multilineBranch_def Let_def)
    then have "take (Suc (length (messages s))) (messages (state_of (multilineBranch w config s)))
       = messages s @ [\<lparr>Role = ChatMessageRoleUser,
            Content = Join (lines (state_of (multilineBranch w config s))) ''\<newline>''\<rparr>]"
      using keep by (simp only: sendUserTurn_messages sendUserTurn_rest take_turn)
    then show ?thesis ..
  next
    case False
    then have "messages (state_of (multilineBranch w config s)) = messages s"
      using keep by (auto simp: multilineBranch_def Let_def say_def split: option.splits)
    then show ?thesis ..
  qed
qed

lemma multilineBranch_contextFile:
  "contextFile (state_of (multilineBranch w config s)) = contextFile s"
  using multilineBranch_turn [of w config s] by (auto simp: sendUserTurn_rest)

lemma multilineLine_contextFile:
  "multilineLine line (s\<lparr>contextFile := f\<rparr>)
     = (fst (multilineLine line s), (snd (multilineLine line s))\<lparr>contextFile := f\<rparr>)"
  by (simp add: multilineLine_def Let_def say_def)

lemma multilineLoop_contextFile:
  "multilineLoop (s\<lparr>contextFile := f\<rparr>) = (multilineLoop s)\<lparr>contextFile := f\<rparr>"
proof (induction s rule: multilineLoop.induct)
  case (1 s)
  show ?case
  proof (cases "pending (scanner s)")
    case Nil
    then show ?thesis by (simp add: multilineLoop_end)
  next
    case (Cons tok rest)
    obtain got e where tok: "tok = (got, e)" by (cases tok)
    show ?thesis
    proof (cases got)
      case None
      then show ?thesis using Cons tok by (simp add: multilineLoop_fail)
    next
      case (Some line)
      let ?s = "s\<lparr>scanner := (scanner s)\<lparr>pending := rest, Err := e\<rparr>\<rparr>"
      obtain fl s' where body: "multilineLine line ?s = (fl, s')"
        by (cases "multilineLine line ?s")
      have scan: "Scan (scanner s) = (True, line, (scanner s)\<lparr>pending := rest, Err := e\<rparr>)"
        using Cons tok Some by (simp add: Scan_def)
      have swap: "s\<lparr>contextFile := f, scanner := (scanner s)\<lparr>pending := rest, Err := e\<rparr>\<rparr>
          = ?s\<lparr>contextFile := f\<rparr>"
        by simp
      have moved: "multilineLine line
            (s\<lparr>contextFile := f, scanner := (scanner s)\<lparr>pending := rest, Err := e\<rparr>\<rparr>)
          = (fl, s'\<lparr>contextFile := f\<rparr>)"
        unfolding swap multilineLine_contextFile body by simp
      have left: "multilineLoop s = (case fl of Break \<Rightarrow> s' | Next \<Rightarrow> multilineLoop s')"
        using Cons tok Some body by (simp add: multilineLoop_line)
      have "pending (scanner (s\<lparr>contextFile := f\<rparr>)) = (Some line, e) # rest"
        using Cons tok Some by simp
      from multilineLoop_line [OF this]
      have right: "multilineLoop (s\<lparr>contextFile := f\<rparr>)
          = (case fl of Break \<Rightarrow> s'\<lparr>contextFile := f\<rparr>
             | Next \<Rightarrow> multilineLoop (s'\<lparr>contextFile := f\<rparr>))"
        by (simp add: moved)
      show ?thesis
      proof (cases fl)
        case Next
        with "1.IH" [OF scan [symmetric] refl refl body [symmetric]] left right
        show ?thesis by simp
      next
        case Break
        with left right show ?thesis by simp
      qed
    qed
  qed
qed

lemma sendUserTurn_contextFile:
  "messages (state_of (sendUserTurn w config p u (s\<lparr>contextFile := f\<rparr>)))
     = messages (state_of (sendUserTurn w config p u s))"
  "client (state_of (sendUserTurn w config p u (s\<lparr>contextFile := f\<rparr>)))
     = client (state_of (sendUserTurn w config p u s))"
  by (simp_all add: sendUserTurn_messages sendUserTurn_client userTurnRequest_def)

lemma multilineBranch_contextFile_free:
  "messages (state_of (multilineBranch w config (s\<lparr>contextFile := f\<rparr>)))
     = messages (state_of (multilineBranch w config s))
   \<and> client (state_of (multilineBranch w config (s\<lparr>contextFile := f\<rparr>)))
     = client (state_of (multilineBranch w config s))"
proof -
  let ?s1 = "multilineLoop (say ''\<newline>'' s)"
  have "say ''\<newline>'' (s\<lparr>contextFile := f\<rparr>) = (say ''\<newline>'' s)\<lparr>contextFile := f\<rparr>"
    by (simp add: say_def)
  then have moved: "multilineLoop (say ''\<newline>'' (s\<lparr>contextFile := f\<rparr>)) = ?s1\<lparr>contextFile := f\<rparr>"
    by (simp only: multilineLoop_contextFile)
  show ?thesis
  proof (cases "Err (scanner ?s1) = None \<and> length (lines ?s1) > 0")
    case True
    then show ?thesis
      unfolding multilineBranch_def Let_def moved
      by (simp add: sendUserTurn_contextFile)
  next
    case False
    then show ?thesis
      unfolding multilineBranch_def Let_def moved
      by (auto simp: say_def split: option.splits)
  qed
qed

lemma multilineLoop_typed:
  assumes "pending (scanner s) = map (\<lambda>t. (Some (fst t), snd t)) typed @ (Some final, e) # rest"
    and "\<forall>t \<in> set typed. ToLower (fst t) \<noteq> cmdMulti \<and> ToLower (fst t) \<noteq> cmdRemove
           \<and> ToLower (fst t) \<noteq> cmdEnd"
    and "ToLower final = cmdEnd"
  shows "multilineLoop s =
           s\<lparr>scanner := (scanner s)\<lparr>pending := rest, Err := e\<rparr>,
             lines := lines s @ map fst typed\<rparr>"
  using assms(1,2)
proof (induction typed arbitrary: s)
  case Nil
  have "HasPrefix final '':''"
    using assms(3) by (rule ToLower_colon)
  then have "\<And>t. multilineLine final t = (Break, t)"
    using assms(3) by (simp add: multilineLine_def Let_def)
  with Nil show ?case
    by (simp add: multilineLoop_line)
next
  case (Cons t typed)
  let ?s1 = "s\<lparr>scanner := (scanner s)\<lparr>pending := map (\<lambda>t. (Some (fst t), snd t)) typed
                                                   @ (Some final, e) # rest,
                                       Err := snd t\<rparr>\<rparr>"
  let ?s2 = "?s1\<lparr>lines := lines ?s1 @ [fst t]\<rparr>"
  from Cons.prems have first: "pending (scanner s)
      = (Some (fst t), snd t) # (map (\<lambda>t. (Some (fst t), snd t)) typed @ (Some final, e) # rest)"
    by simp
  from Cons.prems have "ToLower (fst t) \<noteq> cmdMulti \<and> ToLower (fst t) \<noteq> cmdRemove
      \<and> ToLower (fst t) \<noteq> cmdEnd"
    by simp
  then have "multilineLine (fst t) ?s1 = (Next, ?s2)"
    by (simp add: multilineLine_def Let_def)
  with multilineLoop_line [OF first] have "multilineLoop s = multilineLoop ?s2"
    by simp
  also have "\<dots> = ?s2\<lparr>scanner := (scanner ?s2)\<lparr>pending := rest, Err := e\<rparr>,
                       lines := lines ?s2 @ map fst typed\<rparr>"
    using Cons.prems by (intro Cons.IH) simp_all
  finally show ?case
    by simp
qed

lemma typed_lines_message:
  assumes "isMultiline s"
    and "pending (scanner s) = map (\<lambda>t. (Some (fst t), snd t)) typed @ (Some final, None) # rest"
    and "\<forall>t \<in> set typed. ToLower (fst t) \<noteq> cmdMulti \<and> ToLower (fst t) \<noteq> cmdRemove
           \<and> ToLower (fst t) \<noteq> cmdEnd"
    and "ToLower final = cmdEnd"
    and "lines s @ map fst typed \<noteq> []"
  shows "take (Suc (length (messages s))) (messages (state_of (iteration w config s)))
           = messages s @ [\<lparr>Role = ChatMessageRoleUser,
                              Content = Join (lines s @ map fst typed) ''\<newline>''\<rparr>]"
proof -
  let ?s = "say ''\<newline>'' (say (formatInputPrefix w (getCurrentDirectory w) True (AIName config)) s)"
  let ?s1 = "?s\<lparr>scanner := (scanner ?s)\<lparr>pending := rest, Err := None\<rparr>,
                lines := lines ?s @ map fst typed\<rparr>"
  have "pending (scanner ?s) = map (\<lambda>t. (Some (fst t), snd t)) typed @ (Some final, None) # rest"
    using assms(2) by (simp add: say_def)
  then have loop: "multilineLoop ?s = ?s1"
    using assms(3,4) by (rule multilineLoop_typed)
  have "Err (scanner ?s1) = None" and "lines ?s1 = lines s @ map fst typed"
    and same: "messages ?s1 = messages s"
    by (simp_all add: say_def)
  with assms(5) have "multilineBranch w config
        (say (formatInputPrefix w (getCurrentDirectory w) True (AIName config)) s)
      = sendUserTurn w config ''Error communicating with AI: ''
          (Join (lines s @ map fst typed) ''\<newline>'') ?s1"
    unfolding multilineBranch_def Let_def loop by simp
  with assms(1) have "iteration w config s
      = sendUserTurn w config ''Error communicating with AI: ''
          (Join (lines s @ map fst typed) ''\<newline>'') ?s1"
    by (simp add: iteration_multi)
  then show ?thesis
    using same by (simp only: sendUserTurn_messages take_turn)
qed

text \<open>
  Claim C6. With a context file set (its name is not empty), a plain line of single-line
  mode (no \<^verbatim>\<open>:q\<close>, no \<^verbatim>\<open>:multi\<close>, no \<^verbatim>\<open>:file \<close> prefix) gives the user message
  \<^verbatim>\<open>(Context: \<close> name \<^verbatim>\<open>) \<close> line. A message flushed in multi-line mode has the pending
  lines joined by newlines as its content and nothing else: the transcript and the
  requests after a pass in multi-line mode are the same whatever the context file is,
  and when the lines typed up to \<^verbatim>\<open>:end\<close> hold no command, the content is what was
  pending before, followed by the lines typed, joined by newlines.
  A pass leaves the context file as it is unless it is a \<^verbatim>\<open>:file \<close> line of single-line
  mode whose file is read, which sets it to that name.
\<close>

theorem context_file_reference:
  assumes "Scan (scanner s) = (ok, L, sc)"
  shows "(\<not> isMultiline s \<and> contextFile s \<noteq> [] \<and> ToLower L \<noteq> cmdQuit \<and> ToLower L \<noteq> cmdMulti
            \<and> \<not> HasPrefix L cmdFile \<longrightarrow>
          take (Suc (length (messages s))) (messages (state_of (iteration w config s)))
            = messages s @ [\<lparr>Role = ChatMessageRoleUser,
                               Content = ''(Context: '' @ contextFile s @ '') '' @ L\<rparr>])
         \<and> (isMultiline s \<longrightarrow>
              messages (state_of (iteration w config s)) = messages s
              \<or> take (Suc (length (messages s))) (messages (state_of (iteration w config s)))
                  = messages s @ [\<lparr>Role = ChatMessageRoleUser,
                       Content = Join (lines (state_of (iteration w config s))) ''\<newline>''\<rparr>])
         \<and> contextFile (state_of (iteration w config s))
             = (if \<not> isMultiline s \<and> HasPrefix L cmdFile
                   \<and> (\<exists>C. os_ReadFile w (TrimPrefix L cmdFile) = Inr C)
                then TrimPrefix L cmdFile else contextFile s)
         \<and> (isMultiline s \<longrightarrow>
              (\<forall>f. messages (state_of (iteration w config (s\<lparr>contextFile := f\<rparr>)))
                     = messages (state_of (iteration w config s))
                   \<and> client (state_of (iteration w config (s\<lparr>contextFile := f\<rparr>)))
                     = client (state_of (iteration w config s))))
         \<and> (\<forall>typed final rest.
              isMultiline s
              \<and> pending (scanner s)
                  = map (\<lambda>t. (Some (fst t), snd t)) typed @ (Some final, None) # rest
              \<and> (\<forall>t \<in> set typed. ToLower (fst t) \<noteq> cmdMulti \<and> ToLower (fst t) \<noteq> cmdRemove
                    \<and> ToLower (fst t) \<noteq> cmdEnd)
              \<and> ToLower final = cmdEnd
              \<and> lines s @ map fst typed \<noteq> [] \<longrightarrow>
              take (Suc (length (messages s))) (messages (state_of (iteration w config s)))
                = messages s @ [\<lparr>Role = ChatMessageRoleUser,
                                   Content = Join (lines s @ map fst typed) ''\<newline>''\<rparr>])"
proof (intro conjI impI allI)
  fix f
  let ?p = "formatInputPrefix w (getCurrentDirectory w) True (AIName config)"
  assume multi: "isMultiline s"
  have "say ?p (s\<lparr>contextFile := f\<rparr>) = (say ?p s)\<lparr>contextFile := f\<rparr>"
    by (simp add: say_def)
  moreover have "isMultiline (s\<lparr>contextFile := f\<rparr>)"
    using multi by simp
  ultimately have "iteration w config (s\<lparr>contextFile := f\<rparr>)
      = multilineBranch w config ((say ?p s)\<lparr>contextFile := f\<rparr>)"
    by (simp only: iteration_multi)
  moreover have "iteration w config s = multilineBranch w config (say ?p s)"
    using multi by (rule iteration_multi)
  ultimately show "messages (state_of (iteration w config (s\<lparr>contextFile := f\<rparr>)))
        = messages (state_of (iteration w config s))"
    and "client (state_of (iteration w config (s\<lparr>contextFile := f\<rparr>)))
        = client (state_of (iteration w config s))"
    using multilineBranch_contextFile_free [where w = w and config = config and s = "say ?p s" and f = f]
    by simp_all
next
  fix typed :: "(string \<times> error option) list" and final rest
  assume "isMultiline s
      \<and> pending (scanner s) = map (\<lambda>t. (Some (fst t), snd t)) typed @ (Some final, None) # rest
      \<and> (\<forall>t \<in> set typed. ToLower (fst t) \<noteq> cmdMulti \<and> ToLower (fst t) \<noteq> cmdRemove
            \<and> ToLower (fst t) \<noteq> cmdEnd)
      \<and> ToLower final = cmdEnd
      \<and> lines s @ map fst typed \<noteq> []"
  then show "take (Suc (length (messages s))) (messages (state_of (iteration w config s)))
      = messages s @ [\<lparr>Role = ChatMessageRoleUser,
                         Content = Join (lines s @ map fst typed) ''\<newline>''\<rparr>]"
    using typed_lines_message [of s typed final rest w config] by blast
next
  assume "\<not> isMultiline s \<and> contextFile s \<noteq> [] \<and> ToLower L \<noteq> cmdQuit \<and> ToLower L \<noteq> cmdMulti
            \<and> \<not> HasPrefix L cmdFile"
  then show "take (Suc (length (messages s))) (messages (state_of (iteration w config s)))
            = messages s @ [\<lparr>Role = ChatMessageRoleUser,
                               Content = ''(Context: '' @ contextFile s @ '') '' @ L\<rparr>]"
    using plain_line_message(1) [OF _ assms, of w config] by simp
next
  let ?s = "say (formatInputPrefix w (getCurrentDirectory w) True (AIName config)) s"
  assume "isMultiline s"
  then have "iteration w config s = multilineBranch w config ?s"
    by (rule iteration_multi)
  moreover have "messages ?s = messages s"
    by (simp add: say_def)
  ultimately show "messages (state_of (iteration w config s)) = messages s
      \<or> take (Suc (length (messages s))) (messages (state_of (iteration w config s)))
          = messages s @ [\<lparr>Role = ChatMessageRoleUser,
               Content = Join (lines (state_of (iteration w config s))) ''\<newline>''\<rparr>]"
    using multilineBranch_message [of w config ?s] by simp
next
  show "contextFile (state_of (iteration w config s))
             = (if \<not> isMultiline s \<and> HasPrefix L cmdFile
                   \<and> (\<exists>C. os_ReadFile w (TrimPrefix L cmdFile) = Inr C)
                then TrimPrefix L cmdFile else contextFile s)"
  proof (cases "isMultiline s")
    case True
    then show ?thesis
      by (simp add: iteration_multi multilineBranch_contextFile say_def)
  next
    case single: False
    show ?thesis
    proof (cases "HasPrefix L cmdFile")
      case True
      with single assms file_not_command [OF True] show ?thesis
        by (auto simp: iteration_single singleLineBranch_def Let_def say_def readFile_def
            split: sum.splits)
    next
      case no_file: False
      show ?thesis
      proof (cases "ToLower L = cmdQuit \<or> ToLower L = cmdMulti")
        case True
        with single assms no_file show ?thesis
          by (auto simp: iteration_single singleLineBranch_def Let_def say_def)
      next
        case False
        with single assms no_file plain_line_message(2) [OF single assms, of w config]
        show ?thesis by simp
      qed
    qed
  qed
qed


theorem context_file_reference_witness:
  "Scan (scanner (exampleSession False ''notes.txt'' [] [''what next?'']))
     = (True, ''what next?'', exampleScanner [])
   \<and> take 2 (messages (state_of (iteration exampleWorld exampleConfig
         (exampleSession False ''notes.txt'' [] [''what next?'']))))
       = [\<lparr>Role = ChatMessageRoleSystem, Content = ''be terse''\<rparr>,
          \<lparr>Role = ChatMessageRoleUser, Content = ''(Context: notes.txt) what next?''\<rparr>]
   \<and> contextFile (state_of (iteration exampleWorld exampleConfig
         (exampleSession False ''notes.txt'' [] [''what next?'']))) = ''notes.txt''
   \<and> Scan (scanner (exampleSession True ''notes.txt'' [] [''a'', ''b'', '':end'']))
       = (True, ''a'', exampleScanner [''b'', '':end''])
   \<and> take 2 (messages (state_of (iteration exampleWorld exampleConfig
         (exampleSession True ''notes.txt'' [] [''a'', ''b'', '':end'']))))
       = [\<lparr>Role = ChatMessageRoleSystem, Content = ''be terse''\<rparr>,
          \<lparr>Role = ChatMessageRoleUser, Content = ''a\<newline>b''\<rparr>]
   \<and> Scan (scanner (exampleSession False ''old.txt'' [] ['':file notes.txt'']))
       = (True, '':file notes.txt'', exampleScanner [])
   \<and> contextFile (state_of (iteration exampleWorld exampleConfig
         (exampleSession False ''old.txt'' [] ['':file notes.txt'']))) = ''notes.txt''
   \<and> Scan (scanner (exampleSession True ''notes.txt'' [''x''] [''y'', '':END'', ''z'']))
       = (True, ''y'', exampleScanner ['':END'', ''z''])
   \<and> pending (scanner (exampleSession True ''notes.txt'' [''x''] [''y'', '':END'', ''z'']))
       = map (\<lambda>t. (Some (fst t), snd t)) [(''y'', None)]
         @ (Some '':END'', None) # [(Some ''z'', None)]
   \<and> ToLower ''y'' \<noteq> cmdMulti \<and> ToLower ''y'' \<noteq> cmdRemove \<and> ToLower ''y'' \<noteq> cmdEnd
   \<and> ToLower '':END'' = cmdEnd
   \<and> take 2 (messages (state_of (iteration exampleWorld exampleConfig
         (exampleSession True ''notes.txt'' [''x''] [''y'', '':END'', ''z'']))))
       = [\<lparr>Role = ChatMessageRoleSystem, Content = ''be terse''\<rparr>,
          \<lparr>Role = ChatMessageRoleUser, Content = ''x\<newline>y''\<rparr>]
   \<and> messages (state_of (iteration exampleWorld exampleConfig
         ((exampleSession True ''notes.txt'' [''x''] [''y'', '':END'', ''z''])\<lparr>contextFile := []\<rparr>)))
       = messages (state_of (iteration exampleWorld exampleConfig
           (exampleSession True ''notes.txt'' [''x''] [''y'', '':END'', ''z''])))"
proof -
  let ?plain = "exampleSession False ''notes.txt'' [] [''what next?'']"
  let ?typed = "exampleSession True ''notes.txt'' [''x''] [''y'', '':END'', ''z'']"
  let ?multi = "exampleSession True ''notes.txt'' [] [''a'', ''b'', '':end'']"
  let ?file = "exampleSession False ''old.txt'' [] ['':file notes.txt'']"
  have scan_plain: "Scan (scanner ?plain) = (True, ''what next?'', exampleScanner [])"
    and scan_multi: "Scan (scanner ?multi) = (True, ''a'', exampleScanner [''b'', '':end''])"
    and scan_file: "Scan (scanner ?file) = (True, '':file notes.txt'', exampleScanner [])"
    by (simp_all add: example_defs Scan_def)
  have plain: "\<not> isMultiline ?plain \<and> contextFile ?plain \<noteq> []
      \<and> ToLower ''what next?'' \<noteq> cmdQuit \<and> ToLower ''what next?'' \<noteq> cmdMulti
      \<and> \<not> HasPrefix ''what next?'' cmdFile"
    by (simp add: example_defs lower_defs)
  have before: "messages ?plain = [\<lparr>Role = ChatMessageRoleSystem, Content = ''be terse''\<rparr>]"
    "messages ?multi = [\<lparr>Role = ChatMessageRoleSystem, Content = ''be terse''\<rparr>]"
    "contextFile ?plain = ''notes.txt''" "isMultiline ?multi" "\<not> isMultiline ?file"
    by (simp_all add: example_defs)
  have two: "Suc (length [\<lparr>Role = ChatMessageRoleSystem, Content = ''be terse''\<rparr>]) = 2"
    by simp
  note at_plain = context_file_reference [OF scan_plain, of exampleWorld exampleConfig]
  note at_multi = context_file_reference [OF scan_multi, of exampleWorld exampleConfig]
  note at_file = context_file_reference [OF scan_file, of exampleWorld exampleConfig]
  from at_plain plain
  have "take (Suc (length (messages ?plain)))
          (messages (state_of (iteration exampleWorld exampleConfig ?plain)))
        = messages ?plain @ [\<lparr>Role = ChatMessageRoleUser,
            Content = ''(Context: '' @ contextFile ?plain @ '') '' @ ''what next?''\<rparr>]"
    by blast
  then have first: "take 2 (messages (state_of (iteration exampleWorld exampleConfig ?plain)))
        = [\<lparr>Role = ChatMessageRoleSystem, Content = ''be terse''\<rparr>,
           \<lparr>Role = ChatMessageRoleUser, Content = ''(Context: notes.txt) what next?''\<rparr>]"
    unfolding before two by simp
  from at_plain plain
  have second: "contextFile (state_of (iteration exampleWorld exampleConfig ?plain)) = ''notes.txt''"
    using before by simp
  have grown: "messages (state_of (iteration exampleWorld exampleConfig ?multi)) \<noteq> messages ?multi"
    and buffer: "lines (state_of (iteration exampleWorld exampleConfig ?multi)) = [''a'', ''b'']"
    by code_simp+
  from at_multi before(4) grown
  have "take (Suc (length (messages ?multi)))
          (messages (state_of (iteration exampleWorld exampleConfig ?multi)))
        = messages ?multi @ [\<lparr>Role = ChatMessageRoleUser,
            Content = Join (lines (state_of (iteration exampleWorld exampleConfig ?multi))) ''\<newline>''\<rparr>]"
    by blast
  then have third: "take 2 (messages (state_of (iteration exampleWorld exampleConfig ?multi)))
        = [\<lparr>Role = ChatMessageRoleSystem, Content = ''be terse''\<rparr>,
           \<lparr>Role = ChatMessageRoleUser, Content = ''a\<newline>b''\<rparr>]"
    unfolding before two buffer by simp
  have name: "TrimPrefix '':file notes.txt'' cmdFile = ''notes.txt''"
    by (simp add: HasPrefix_def TrimPrefix_def)
  have "os_ReadFile exampleWorld (TrimPrefix '':file notes.txt'' cmdFile) = Inr ''hello''"
    unfolding name by (simp add: example_defs)
  then have "\<exists>C. os_ReadFile exampleWorld (TrimPrefix '':file notes.txt'' cmdFile) = Inr C" ..
  moreover have "HasPrefix '':file notes.txt'' cmdFile"
    by (simp add: HasPrefix_def)
  ultimately have read: "\<not> isMultiline ?file \<and> HasPrefix '':file notes.txt'' cmdFile
      \<and> (\<exists>C. os_ReadFile exampleWorld (TrimPrefix '':file notes.txt'' cmdFile) = Inr C)"
    using before(5) by blast
  from at_file
  have "contextFile (state_of (iteration exampleWorld exampleConfig ?file))
      = (if \<not> isMultiline ?file \<and> HasPrefix '':file notes.txt'' cmdFile
            \<and> (\<exists>C. os_ReadFile exampleWorld (TrimPrefix '':file notes.txt'' cmdFile) = Inr C)
         then TrimPrefix '':file notes.txt'' cmdFile else contextFile ?file)"
    by blast
  also from read
  have "(if \<not> isMultiline ?file \<and> HasPrefix '':file notes.txt'' cmdFile
            \<and> (\<exists>C. os_ReadFile exampleWorld (TrimPrefix '':file notes.txt'' cmdFile) = Inr C)
         then TrimPrefix '':file notes.txt'' cmdFile else contextFile ?file)
        = TrimPrefix '':file notes.txt'' cmdFile"
    by (rule if_P)
  also note name
  finally have fourth:
    "contextFile (state_of (iteration exampleWorld exampleConfig ?file)) = ''notes.txt''" .
  have scan_typed: "Scan (scanner ?typed) = (True, ''y'', exampleScanner ['':END'', ''z''])"
    by (simp add: example_defs Scan_def)
  note at_typed = context_file_reference [OF scan_typed, of exampleWorld exampleConfig]
  have in_multi: "isMultiline ?typed"
    and input: "pending (scanner ?typed)
        = map (\<lambda>t. (Some (fst t), snd t)) [(''y'', None)]
          @ (Some '':END'', None) # [(Some ''z'', None)]"
    and held: "messages ?typed = [\<lparr>Role = ChatMessageRoleSystem, Content = ''be terse''\<rparr>]"
      "lines ?typed = [''x'']"
    by (simp_all add: example_defs)
  have no_command: "ToLower ''y'' \<noteq> cmdMulti \<and> ToLower ''y'' \<noteq> cmdRemove \<and> ToLower ''y'' \<noteq> cmdEnd"
    and ends: "ToLower '':END'' = cmdEnd"
    by (simp_all add: lower_defs)
  from no_command
  have all_typed: "\<forall>t \<in> set [(''y'', None :: error option)].
      ToLower (fst t) \<noteq> cmdMulti \<and> ToLower (fst t) \<noteq> cmdRemove \<and> ToLower (fst t) \<noteq> cmdEnd"
    by simp
  have some: "lines ?typed @ map fst [(''y'', None :: error option)] \<noteq> []"
    by simp
  from at_typed in_multi input all_typed ends some
  have "take (Suc (length (messages ?typed)))
          (messages (state_of (iteration exampleWorld exampleConfig ?typed)))
        = messages ?typed @ [\<lparr>Role = ChatMessageRoleUser,
            Content = Join (lines ?typed @ map fst [(''y'', None :: error option)]) ''\<newline>''\<rparr>]"
    by blast
  then have fifth: "take 2 (messages (state_of (iteration exampleWorld exampleConfig ?typed)))
        = [\<lparr>Role = ChatMessageRoleSystem, Content = ''be terse''\<rparr>,
           \<lparr>Role = ChatMessageRoleUser, Content = ''x\<newline>y''\<rparr>]"
    unfolding held two by simp
  from at_typed in_multi
  have sixth: "messages (state_of (iteration exampleWorld exampleConfig (?typed\<lparr>contextFile := []\<rparr>)))
      = messages (state_of (iteration exampleWorld exampleConfig ?typed))"
    by blast
  show ?thesis
    using scan_plain scan_multi scan_file first second third fourth
      scan_typed input no_command ends fifth sixth
    by simp
qed

section \<open>The transcript\<close>

lemma sendUserTurn_appends:
  "\<exists>added. messages (state_of (sendUserTurn w config p u s)) = messages s @ added
     \<and> (\<forall>m \<in> set added. Role m = ChatMessageRoleUser \<or> Role m = ChatMessageRoleAssistant)"
  unfolding sendUserTurn_messages by (auto split: reply.splits)

lemma multilineBranch_appends:
  "\<exists>added. messages (state_of (multilineBranch w config s)) = messages s @ added
     \<and> (\<forall>m \<in> set added. Role m = ChatMessageRoleUser \<or> Role m = ChatMessageRoleAssistant)"
proof -
  from multilineBranch_turn [of w config s] show ?thesis
  proof
    assume "\<exists>p u s1. multilineBranch w config s = sendUserTurn w config p u s1
       \<and> messages s1 = messages s \<and> client s1 = client s \<and> contextFile s1 = contextFile s"
    then obtain p u s1 where "multilineBranch w config s = sendUserTurn w config p u s1"
      and "messages s1 = messages s"
      by blast
    with sendUserTurn_appends [of w config p u s1] show ?thesis
      by simp
  next
    assume "client (state_of (multilineBranch w config s)) = client s
       \<and> messages (state_of (multilineBranch w config s)) = messages s
       \<and> contextFile (state_of (multilineBranch w config s)) = contextFile s
       \<and> is_Continue (multilineBranch w config s)"
    then have "messages (state_of (multilineBranch w config s)) = messages s @ []"
      by simp
    then show ?thesis
      by (intro exI [of _ "[]"]) simp
  qed
qed

lemma singleLineBranch_appends:
  "\<exists>added. messages (state_of (singleLineBranch w config s)) = messages s @ added
     \<and> (\<forall>m \<in> set added. Role m = ChatMessageRoleUser \<or> Role m = ChatMessageRoleAssistant)"
proof -
  obtain ok L sc where scan: "Scan (scanner s) = (ok, L, sc)"
    by (cases "Scan (scanner s)")
  show ?thesis
  proof (cases "ToLower L = cmdQuit \<or> ToLower L = cmdMulti")
    case True
    then have "messages (state_of (singleLineBranch w config s)) = messages s @ []"
      using scan by (auto simp: singleLineBranch_def Let_def say_def)
    then show ?thesis
      by (intro exI [of _ "[]"]) simp
  next
    case no_command: False
    show ?thesis
    proof (cases "HasPrefix L cmdFile")
      case True
      show ?thesis
      proof (cases "readFile w (TrimPrefix L cmdFile)")
        case (Inl err)
        then have "messages (state_of (singleLineBranch w config s)) = messages s @ []"
          using scan no_command True by (simp add: singleLineBranch_def Let_def say_def)
        then show ?thesis
          by (intro exI [of _ "[]"]) simp
      next
        case (Inr content)
        let ?m = "\<lparr>Role = ChatMessageRoleUser,
                   Content = ''Content of '' @ TrimPrefix L cmdFile @ '':\<newline>'' @ content\<rparr>"
        from Inr have "messages (state_of (singleLineBranch w config s)) = messages s @ [?m]"
          using scan no_command True by (simp add: singleLineBranch_def Let_def say_def)
        then show ?thesis
          by (intro exI [of _ "[?m]"]) simp
      qed
    next
      case False
      let ?u = "if contextFile s \<noteq> [] then ''(Context: '' @ contextFile s @ '') '' @ L else L"
      from False no_command have "singleLineBranch w config s =
          sendUserTurn w config ''Error: '' ?u (s\<lparr>scanner := sc\<rparr>)"
        using scan by (simp add: singleLineBranch_def Let_def)
      with sendUserTurn_appends [of w config "''Error: ''" ?u "s\<lparr>scanner := sc\<rparr>"]
      show ?thesis by simp
    qed
  qed
qed

lemma iteration_appends:
  "\<exists>added. messages (state_of (iteration w config s)) = messages s @ added
     \<and> (\<forall>m \<in> set added. Role m = ChatMessageRoleUser \<or> Role m = ChatMessageRoleAssistant)"
proof (cases "isMultiline s")
  case True
  with multilineBranch_appends
    [of w config "say (formatInputPrefix w (getCurrentDirectory w) True (AIName config)) s"]
  show ?thesis
    by (simp add: iteration_multi say_def)
next
  case False
  with singleLineBranch_appends
    [of w config "say (formatInputPrefix w (getCurrentDirectory w) False (AIName config)) s"]
  show ?thesis
    by (simp add: iteration_single say_def)
qed

lemma reachable_transcript:
  assumes "reachable config s"
  shows "\<exists>later. messages s = \<lparr>Role = ChatMessageRoleSystem, Content = SystemPrompt config\<rparr> # later
           \<and> (\<forall>m \<in> set later. Role m = ChatMessageRoleUser \<or> Role m = ChatMessageRoleAssistant)"
  using assms
proof (induction rule: reachable.induct)
  case (at_start stdin cl out)
  show ?case
    by (simp add: start_def)
next
  case (after_pass s w s')
  then obtain later where before:
      "messages s = \<lparr>Role = ChatMessageRoleSystem, Content = SystemPrompt config\<rparr> # later"
      "\<forall>m \<in> set later. Role m = ChatMessageRoleUser \<or> Role m = ChatMessageRoleAssistant"
    by blast
  from iteration_appends [of w config s] after_pass.hyps(2)
  obtain added where "messages s' = messages s @ added"
    and "\<forall>m \<in> set added. Role m = ChatMessageRoleUser \<or> Role m = ChatMessageRoleAssistant"
    by auto
  with before
  have "messages s' = \<lparr>Role = ChatMessageRoleSystem, Content = SystemPrompt config\<rparr> # (later @ added)
        \<and> (\<forall>m \<in> set (later @ added). Role m = ChatMessageRoleUser \<or> Role m = ChatMessageRoleAssistant)"
    by auto
  then show ?case
    by blast
qed

text \<open>
  Claim C8. In every state the session reaches, the transcript is not empty and its
  element 0 is the system message with the configured system prompt, the only one of its
  role: what follows it are user and assistant messages. Every operation keeps the
  transcript as a prefix of the transcript after it: a whole pass of the loop, however it
  ends and whatever the environment answers, only appends at the end, and a line read in
  multi-line mode and the inner loop do not touch the transcript.
\<close>

theorem transcript_grows_from_system_message:
  assumes "reachable config s"
  shows "messages s \<noteq> []
         \<and> messages s ! 0 = \<lparr>Role = ChatMessageRoleSystem, Content = SystemPrompt config\<rparr>
         \<and> (\<forall>m \<in> set (tl (messages s)).
               Role m = ChatMessageRoleUser \<or> Role m = ChatMessageRoleAssistant)
         \<and> (\<forall>w. prefix (messages s) (messages (state_of (iteration w config s))))
         \<and> (\<forall>line. messages (snd (multilineLine line s)) = messages s)
         \<and> messages (multilineLoop s) = messages s"
proof -
  from reachable_transcript [OF assms]
  have "messages s \<noteq> []"
    and "messages s ! 0 = \<lparr>Role = ChatMessageRoleSystem, Content = SystemPrompt config\<rparr>"
    and "\<forall>m \<in> set (tl (messages s)). Role m = ChatMessageRoleUser \<or> Role m = ChatMessageRoleAssistant"
    by auto
  moreover have "\<And>w. prefix (messages s) (messages (state_of (iteration w config s)))"
    using iteration_appends [of _ config s] by (metis prefixI)
  ultimately show ?thesis
    by (simp add: multilineLine_keeps multilineLoop_keeps)
qed

theorem transcript_grows_from_system_message_witness:
  "reachable exampleConfig
     (state_of (iteration exampleWorld exampleConfig
        (start exampleConfig (exampleScanner [''hi'', ''again'']) [] [])))
   \<and> messages (state_of (iteration exampleWorld exampleConfig
         (start exampleConfig (exampleScanner [''hi'', ''again'']) [] [])))
       = [\<lparr>Role = ChatMessageRoleSystem, Content = ''be terse''\<rparr>,
          \<lparr>Role = ChatMessageRoleUser, Content = ''hi''\<rparr>,
          \<lparr>Role = ChatMessageRoleAssistant, Content = ''4''\<rparr>]
   \<and> messages (state_of (iteration exampleWorld exampleConfig
         (start exampleConfig (exampleScanner [''hi'', ''again'']) [] []))) ! 0
       = \<lparr>Role = ChatMessageRoleSystem, Content = SystemPrompt exampleConfig\<rparr>
   \<and> prefix
        (messages (state_of (iteration exampleWorld exampleConfig
           (start exampleConfig (exampleScanner [''hi'', ''again'']) [] []))))
        (messages (state_of (iteration failingWorld exampleConfig
           (state_of (iteration exampleWorld exampleConfig
              (start exampleConfig (exampleScanner [''hi'', ''again'']) [] []))))))"
proof -
  let ?s0 = "start exampleConfig (exampleScanner [''hi'', ''again'']) [] []"
  let ?s1 = "state_of (iteration exampleWorld exampleConfig ?s0)"
  have "is_Continue (iteration exampleWorld exampleConfig ?s0)"
    by code_simp
  then have "iteration exampleWorld exampleConfig ?s0 = Continue ?s1"
    by simp
  with reachable.at_start [of exampleConfig "exampleScanner [''hi'', ''again'']" "[]" "[]"]
  have there: "reachable exampleConfig ?s1"
    by (rule reachable.after_pass)
  have transcript: "messages ?s1
       = [\<lparr>Role = ChatMessageRoleSystem, Content = ''be terse''\<rparr>,
          \<lparr>Role = ChatMessageRoleUser, Content = ''hi''\<rparr>,
          \<lparr>Role = ChatMessageRoleAssistant, Content = ''4''\<rparr>]"
    by code_simp
  from transcript_grows_from_system_message [OF there]
  have "messages ?s1 ! 0 = \<lparr>Role = ChatMessageRoleSystem, Content = SystemPrompt exampleConfig\<rparr>"
    and "prefix (messages ?s1) (messages (state_of (iteration failingWorld exampleConfig ?s1)))"
    by blast+
  with there transcript show ?thesis
    by blast
qed

section \<open>The single-shot run\<close>

text \<open>
  Claim C9. With the configuration loaded, the flags giving a prompt \<open>P\<close> that is not
  empty and no interactive mode, and the key set, the process ends and has sent exactly
  one request; its messages are the system message with the configured system prompt
  followed by the user message \<open>P\<close>, in that order.
\<close>

theorem single_shot_request:
  assumes "loadConfig w ''config.json'' = (config, None)"
    and "flag_Parse w = Inr (prompt, False)"
    and "os_Getenv w ''OPENAI_API_KEY'' \<noteq> []"
    and "prompt \<noteq> []"
  shows "\<exists>run. main w ws stdin = Some run
           \<and> requests run =
               [\<lparr>RequestModel = Model config,
                 Messages = [\<lparr>Role = ChatMessageRoleSystem, Content = SystemPrompt config\<rparr>,
                             \<lparr>Role = ChatMessageRoleUser, Content = prompt\<rparr>]\<rparr>]"
  using assms
  by (auto simp: main_def callOpenAI_def CreateChatCompletion_def
      split: sum.splits list.splits prod.splits option.splits)

theorem single_shot_request_witness:
  "loadConfig exampleWorld ''config.json'' = (exampleConfig, None)
   \<and> flag_Parse exampleWorld = Inr (''2+2'', False)
   \<and> os_Getenv exampleWorld ''OPENAI_API_KEY'' \<noteq> []
   \<and> ''2+2'' \<noteq> []
   \<and> map_option requests (main exampleWorld [] (exampleScanner []))
       = Some [\<lparr>RequestModel = ''gpt-x'',
                Messages = [\<lparr>Role = ChatMessageRoleSystem, Content = ''be terse''\<rparr>,
                            \<lparr>Role = ChatMessageRoleUser, Content = ''2+2''\<rparr>]\<rparr>]"
proof -
  have config: "loadConfig exampleWorld ''config.json'' = (exampleConfig, None)"
    by (simp add: loadConfig_def exampleWorld_def)
  have flags: "flag_Parse exampleWorld = Inr (''2+2'', False)"
    and key: "os_Getenv exampleWorld ''OPENAI_API_KEY'' \<noteq> []"
    and prompt: "''2+2'' \<noteq> []"
    by (simp_all add: exampleWorld_def)
  from single_shot_request [OF config flags key prompt, of "[]" "exampleScanner []"]
  obtain run where "main exampleWorld [] (exampleScanner []) = Some run"
    and "requests run =
               [\<lparr>RequestModel = Model exampleConfig,
                 Messages = [\<lparr>Role = ChatMessageRoleSystem, Content = SystemPrompt exampleConfig\<rparr>,
                             \<lparr>Role = ChatMessageRoleUser, Content = ''2+2''\<rparr>]\<rparr>]"
    by blast
  then have "map_option requests (main exampleWorld [] (exampleScanner []))
       = Some [\<lparr>RequestModel = ''gpt-x'',
                Messages = [\<lparr>Role = ChatMessageRoleSystem, Content = ''be terse''\<rparr>,
                            \<lparr>Role = ChatMessageRoleUser, Content = ''2+2''\<rparr>]\<rparr>]"
    by (simp add: exampleConfig_def)
  with config flags key prompt show ?thesis
    by blast
qed

section \<open>The command \<^verbatim>\<open>:end\<close>\<close>

text \<open>
  Claim C2, evaluated on the code. The line \<^verbatim>\<open>:end\<close> leaves the inner loop with the
  session as it is. In multi-line mode with the input \<^verbatim>\<open>a\<close>, \<^verbatim>\<open>:end\<close>, \<^verbatim>\<open>b\<close>,
  \<^verbatim>\<open>:end\<close>, the first pass sends \<^verbatim>\<open>a\<close> and stays in multi-line mode with the
  pending line \<^verbatim>\<open>a\<close> still there, so the second pass sends \<^verbatim>\<open>a\<close> and \<^verbatim>\<open>b\<close>
  joined.
\<close>

theorem end_leaves_pending_lines:
  "multilineLine '':end'' s = (Break, s)
   \<and> isMultiline (exampleSession True [] [] [''a'', '':end'', ''b'', '':end''])
   \<and> isMultiline (state_of (iteration exampleWorld exampleConfig
         (exampleSession True [] [] [''a'', '':end'', ''b'', '':end''])))
   \<and> lines (state_of (iteration exampleWorld exampleConfig
         (exampleSession True [] [] [''a'', '':end'', ''b'', '':end'']))) = [''a'']
   \<and> messages (state_of (iteration exampleWorld exampleConfig
         (state_of (iteration exampleWorld exampleConfig
            (exampleSession True [] [] [''a'', '':end'', ''b'', '':end''])))))
       = [\<lparr>Role = ChatMessageRoleSystem, Content = ''be terse''\<rparr>,
          \<lparr>Role = ChatMessageRoleUser, Content = ''a''\<rparr>,
          \<lparr>Role = ChatMessageRoleAssistant, Content = ''4''\<rparr>,
          \<lparr>Role = ChatMessageRoleUser, Content = ''a\<newline>b''\<rparr>,
          \<lparr>Role = ChatMessageRoleAssistant, Content = ''4''\<rparr>]"
proof -
  have "multilineLine '':end'' s = (Break, s)"
    by (simp add: multilineLine_def Let_def lower_defs)
  moreover have "isMultiline (exampleSession True [] [] [''a'', '':end'', ''b'', '':end''])"
    by (simp add: example_defs)
  moreover have "isMultiline (state_of (iteration exampleWorld exampleConfig
         (exampleSession True [] [] [''a'', '':end'', ''b'', '':end''])))"
    by code_simp
  moreover have "lines (state_of (iteration exampleWorld exampleConfig
         (exampleSession True [] [] [''a'', '':end'', ''b'', '':end'']))) = [''a'']"
    by code_simp
  moreover have "messages (state_of (iteration exampleWorld exampleConfig
         (state_of (iteration exampleWorld exampleConfig
            (exampleSession True [] [] [''a'', '':end'', ''b'', '':end''])))))
       = [\<lparr>Role = ChatMessageRoleSystem, Content = ''be terse''\<rparr>,
          \<lparr>Role = ChatMessageRoleUser, Content = ''a''\<rparr>,
          \<lparr>Role = ChatMessageRoleAssistant, Content = ''4''\<rparr>,
          \<lparr>Role = ChatMessageRoleUser, Content = ''a\<newline>b''\<rparr>,
          \<lparr>Role = ChatMessageRoleAssistant, Content = ''4''\<rparr>]"
    by code_simp
  ultimately show ?thesis
    by blast
qed

end
